theory Spec2Isabelle
  imports Main "HOL-Library.Word"
begin

unbundle bit_operations_syntax

section \<open>Machine types and constants\<close>

type_synonym u8 = "8 word"
type_synonym u32 = "32 word"

text \<open>
  A mapped region (\<^verbatim>\<open>void __iomem *\<close>) is a byte-addressed memory; an address inside it
  is the byte offset from the region's base.  Pointer arithmetic on the 64-bit base does
  not wrap, so offsets are natural numbers.
\<close>

type_synonym iomem = "nat \<Rightarrow> u8"

text \<open>The constants \<^verbatim>\<open>hsw.c\<close> defines itself.\<close>

definition HSW_DSP_BAR :: nat where
  "HSW_DSP_BAR = 0"

definition HSW_PCI_BAR :: nat where
  "HSW_PCI_BAR = 1"

definition MBOX_OFFSET :: u32 where
  "MBOX_OFFSET = 0x7E000"

definition MBOX_SIZE :: u32 where
  "MBOX_SIZE = 0x1000"

definition HSW_PANIC_OFFSET :: "u32 \<Rightarrow> u32" where
  "HSW_PANIC_OFFSET x = x AND 0xFFFF"

text \<open>The kernel's error numbers (\<^verbatim>\<open>errno-base.h\<close>); the code returns them negated.\<close>

definition ENODEV :: int where
  "ENODEV = 19"

definition EINVAL :: int where
  "EINVAL = 22"

text \<open>
  The register offsets and bit masks of \<^verbatim>\<open>shim.h\<close>, the panic magic of the IPC header
  and the layout of \<^verbatim>\<open>struct sof_ipc_reply\<close> are declared in headers that are not part of
  the sources at hand.  Every function of the model takes them as the parameter \<open>k\<close>;
  the field names are the names the code uses.  \<open>SHIM_CSR_DCS\<close> is a macro with an
  argument.  \<open>sizeof_sof_ipc_reply\<close> is \<^verbatim>\<open>sizeof(struct sof_ipc_reply)\<close>, and the two
  \<open>offsetof\<close> fields are the byte offsets of \<^verbatim>\<open>hdr.size\<close> and \<^verbatim>\<open>error\<close> in that struct.
\<close>

record hsw_consts =
  SHIM_CSR :: u32
  SHIM_CSR2 :: u32
  SHIM_CLKCTL :: u32
  SHIM_HMDC :: u32
  SHIM_ISRX :: u32
  SHIM_IMRX :: u32
  SHIM_IMRD :: u32
  SHIM_IPCX :: u32
  SHIM_IPCD :: u32
  PCI_VDRTCTL0 :: u32
  PCI_VDRTCTL2 :: u32
  PCI_PMCS :: u32
  SHIM_CSR_RST :: u32
  SHIM_CSR_STALL :: u32
  SHIM_CSR_S1IOCS :: u32
  SHIM_CSR_SBCS1 :: u32
  SHIM_CSR_LPCS :: u32
  SHIM_CSR_DCS_MASK :: u32
  SHIM_CSR_DCS :: "u32 \<Rightarrow> u32"
  SHIM_CLKCTL_MASK :: u32
  SHIM_CLKCTL_DCPLCG :: u32
  SHIM_CLKCTL_SCOE0 :: u32
  SHIM_CSR2_SDFD_SSP1 :: u32
  SHIM_HMDC_HDDA_E0_ALLCH :: u32
  SHIM_HMDC_HDDA_E1_ALLCH :: u32
  SHIM_ISRX_DONE :: u32
  SHIM_ISRX_BUSY :: u32
  SHIM_IMRX_DONE :: u32
  SHIM_IMRX_BUSY :: u32
  SHIM_IMRD_DONE :: u32
  SHIM_IMRD_BUSY :: u32
  SHIM_IMRD_SSP0 :: u32
  SHIM_IMRD_DMAC :: u32
  SHIM_IPCX_DONE :: u32
  SHIM_IPCX_BUSY :: u32
  SHIM_IPCD_DONE :: u32
  SHIM_IPCD_BUSY :: u32
  PCI_PMCS_PS_MASK :: u32
  PCI_VDRTCL2_DCLCGE :: u32
  PCI_VDRTCL2_DTCGE :: u32
  PCI_VDRTCL2_APLLSE_MASK :: u32
  PCI_VDRTCL0_D3PGD :: u32
  PCI_VDRTCL0_DSRAMPGE_MASK :: u32
  PCI_VDRTCL0_ISRAMPGE_MASK :: u32
  SOF_IPC_PANIC_MAGIC :: u32
  SOF_IPC_PANIC_MAGIC_MASK :: u32
  sizeof_sof_ipc_reply :: nat
  offsetof_reply_hdr_size :: nat
  offsetof_reply_error :: nat

section \<open>Data model\<close>

datatype irqreturn = IRQ_NONE | IRQ_HANDLED | IRQ_WAKE_THREAD

text \<open>
  \<^verbatim>\<open>elem->type\<close> is a 32-bit number the firmware supplies.  The switch of
  \<^verbatim>\<open>hsw_get_windows\<close> names seven values; every other value takes its default arm and
  is \<open>SOF_IPC_REGION_OTHER\<close> here.
\<close>

datatype sof_ipc_region =
    SOF_IPC_REGION_DOWNBOX
  | SOF_IPC_REGION_UPBOX
  | SOF_IPC_REGION_TRACE
  | SOF_IPC_REGION_DEBUG
  | SOF_IPC_REGION_STREAM
  | SOF_IPC_REGION_REGS
  | SOF_IPC_REGION_EXCEPTION
  | SOF_IPC_REGION_OTHER u32

record sof_ipc_window_elem =
  elem_type :: sof_ipc_region
  elem_offset :: u32
  elem_size :: u32

record snd_sof_mailbox =
  box_offset :: u32
  box_size :: u32

text \<open>
  What the driver does to the world outside \<^verbatim>\<open>hsw.c\<close>, in the order it does it: the
  register updates and writes it issues through the \<^verbatim>\<open>snd_sof_dsp_*\<close> helpers, the raw
  \<^verbatim>\<open>readl\<close> of the power-state poll with the value the device returned, the delays it
  requests (milliseconds for \<open>Mdelay\<close> and \<open>Msleep\<close>, microseconds for
  \<open>Usleep_range\<close>), the calls to the IPC and debug collaborators, and the error messages.
\<close>

datatype event =
    Update_bits nat u32 u32 u32
  | Dsp_write nat u32 u32
  | Readl nat u32 u32
  | Mdelay nat
  | Msleep nat
  | Usleep_range nat nat
  | Ipc_reply u32
  | Dsp_panic u32
  | Ipc_msgs_rx
  | Dev_err string
  | Debugfs_create_item nat u32 string

text \<open>
  The part of \<^verbatim>\<open>struct snd_sof_dev\<close> that \<^verbatim>\<open>hsw.c\<close> uses.  \<open>bar\<close> holds the contents of
  the mapped regions by BAR index.  \<open>info_window\<close> is \<open>None\<close> for a null pointer and
  otherwise the window table, \<^verbatim>\<open>num_windows\<close> being its length.  \<open>events\<close> is the log of
  outside effects so far.  The spin lock \<^verbatim>\<open>hw_lock\<close> is not modelled: every function runs
  alone.
\<close>

record snd_sof_dev =
  bar :: "nat \<Rightarrow> iomem"
  mmio_bar :: nat
  mailbox_bar :: nat
  dsp_box :: snd_sof_mailbox
  host_box :: snd_sof_mailbox
  stream_box :: snd_sof_mailbox
  dsp_oops_offset :: u32
  info_window :: "sof_ipc_window_elem list option"
  events :: "event list"

text \<open>
  The fields of \<^verbatim>\<open>struct snd_sof_ipc_msg\<close> that \<^verbatim>\<open>hsw_get_reply\<close> uses, and the
  payload size beside them.
  \<open>msg_data\<close> is \<open>None\<close> for a null pointer.  \<open>reply_data\<close> is the content of the
  caller's reply buffer; that the pointer is valid and the buffer large enough for what
  is copied into it is the caller's obligation.  The two sizes are \<^verbatim>\<open>size_t\<close>.
\<close>

record snd_sof_ipc_msg =
  msg_data :: "u8 list option"
  msg_size :: nat
  reply_data :: "u8 list"
  reply_size :: nat

text \<open>The two fields of \<^verbatim>\<open>struct sof_ipc_reply\<close> the code reads; \<open>reply_error\<close> is signed.\<close>

record sof_ipc_reply =
  reply_hdr_size :: u32
  reply_error :: u32

section \<open>Register and memory access\<close>

text \<open>Byte \<open>j\<close> of a 32-bit value, byte 0 the least significant.\<close>

definition byte_of :: "u32 \<Rightarrow> nat \<Rightarrow> u8" where
  "byte_of v j = ucast (drop_bit (8 * j) v)"

text \<open>
  \<^verbatim>\<open>readl\<close> and \<^verbatim>\<open>writel\<close>: a 32-bit access to the region, little-endian as on the x86
  host this device is part of.
\<close>

definition readl :: "iomem \<Rightarrow> nat \<Rightarrow> u32" where
  "readl mem a =
     ucast (mem a) OR push_bit 8 (ucast (mem (a + 1))) OR
     push_bit 16 (ucast (mem (a + 2))) OR push_bit 24 (ucast (mem (a + 3)))"

definition writel :: "u32 \<Rightarrow> nat \<Rightarrow> iomem \<Rightarrow> iomem" where
  "writel v a mem =
     mem(a := byte_of v 0, a + 1 := byte_of v 1, a + 2 := byte_of v 2, a + 3 := byte_of v 3)"

text \<open>\<^verbatim>\<open>memcpy_fromio(dest, src, size)\<close>: the \<open>n\<close> bytes at \<open>a\<close>, as they arrive in \<open>dest\<close>.\<close>

definition memcpy_fromio :: "iomem \<Rightarrow> nat \<Rightarrow> nat \<Rightarrow> u8 list" where
  "memcpy_fromio mem a n = map (\<lambda>i. mem (a + i)) [0..<n]"

text \<open>A host buffer read as 32-bit values: the value at byte offset \<open>i\<close>.\<close>

definition get_le32 :: "u8 list \<Rightarrow> nat \<Rightarrow> u32" where
  "get_le32 bs i = readl (\<lambda>j. bs ! j) i"











definition hsw_mailbox_read :: "snd_sof_dev \<Rightarrow> u32 \<Rightarrow> nat \<Rightarrow> u8 list" where
  "hsw_mailbox_read sdev offset bytes =
     memcpy_fromio (bar sdev (mailbox_bar sdev)) (unat offset) bytes"

text \<open>\<^verbatim>\<open>hsw_write\<close> and \<^verbatim>\<open>hsw_read\<close>, the \<^verbatim>\<open>write\<close> and \<^verbatim>\<open>read\<close> operations of the device.\<close>

definition hsw_write :: "snd_sof_dev \<Rightarrow> nat \<Rightarrow> nat \<Rightarrow> u32 \<Rightarrow> snd_sof_dev" where
  "hsw_write sdev b addr v = sdev\<lparr>bar := (bar sdev)(b := writel v addr (bar sdev b))\<rparr>"

definition hsw_read :: "snd_sof_dev \<Rightarrow> nat \<Rightarrow> nat \<Rightarrow> u32" where
  "hsw_read sdev b addr = readl (bar sdev b) addr"

section \<open>Helpers of the SOF core\<close>

text \<open>The log of outside effects grows by one event.\<close>

definition emit :: "event \<Rightarrow> snd_sof_dev \<Rightarrow> snd_sof_dev" where
  "emit e sdev = sdev\<lparr>events := events sdev @ [e]\<rparr>"

text \<open>
  Modelled from the spec: \<^verbatim>\<open>snd_sof_dsp_read\<close> and \<^verbatim>\<open>snd_sof_dsp_write\<close> of \<^verbatim>\<open>ops.h\<close> are
  not among the sources.  The spec gives them as \<open>read32(region, offset)\<close> and
  \<open>write32(region, offset, value)\<close> over the region's base; they go through the device's
  \<^verbatim>\<open>read\<close> and \<^verbatim>\<open>write\<close> operations.
\<close>

definition snd_sof_dsp_read :: "snd_sof_dev \<Rightarrow> nat \<Rightarrow> u32 \<Rightarrow> u32" where
  "snd_sof_dsp_read sdev b offset = hsw_read sdev b (unat offset)"

definition snd_sof_dsp_write :: "snd_sof_dev \<Rightarrow> nat \<Rightarrow> u32 \<Rightarrow> u32 \<Rightarrow> snd_sof_dev" where
  "snd_sof_dsp_write sdev b offset v =
     emit (Dsp_write b offset v) (hsw_write sdev b (unat offset) v)"

text \<open>
  Modelled from the spec: \<^verbatim>\<open>snd_sof_dsp_update_bits_unlocked\<close> and
  \<^verbatim>\<open>snd_sof_dsp_update_bits\<close> of \<^verbatim>\<open>ops.h\<close> are not among the sources.  The spec describes
  their calls as a read-modify-write that gives the bits of the mask \<open>msk\<close> the value they have
  in the value \<open>v\<close> and keeps the others ("clear BUSY, set DONE" for the mask BUSY|DONE and the
  value DONE).  The second takes the lock around the first; locking is not modelled.
\<close>

definition snd_sof_dsp_update_bits_unlocked ::
  "snd_sof_dev \<Rightarrow> nat \<Rightarrow> u32 \<Rightarrow> u32 \<Rightarrow> u32 \<Rightarrow> snd_sof_dev" where
  "snd_sof_dsp_update_bits_unlocked sdev b offset msk v =
     (let old = hsw_read sdev b (unat offset);
          new = (old AND NOT msk) OR (v AND msk)
      in emit (Update_bits b offset msk v) (hsw_write sdev b (unat offset) new))"

definition snd_sof_dsp_update_bits ::
  "snd_sof_dev \<Rightarrow> nat \<Rightarrow> u32 \<Rightarrow> u32 \<Rightarrow> u32 \<Rightarrow> snd_sof_dev" where
  "snd_sof_dsp_update_bits sdev b offset msk v =
     snd_sof_dsp_update_bits_unlocked sdev b offset msk v"

text \<open>
  Modelled from the spec: \<^verbatim>\<open>snd_sof_dsp_mailbox_init\<close> is not among the sources.  The
  spec has it set the box descriptors to the offsets and sizes given: the DSP box from
  the first pair, the host box from the second.
\<close>

definition snd_sof_dsp_mailbox_init ::
  "snd_sof_dev \<Rightarrow> u32 \<Rightarrow> u32 \<Rightarrow> u32 \<Rightarrow> u32 \<Rightarrow> snd_sof_dev" where
  "snd_sof_dsp_mailbox_init sdev dspbox dspbox_size hostbox hostbox_size =
     sdev\<lparr>dsp_box := \<lparr>box_offset = dspbox, box_size = dspbox_size\<rparr>,
          host_box := \<lparr>box_offset = hostbox, box_size = hostbox_size\<rparr>\<rparr>"

text \<open>
  The delays and the collaborators outside this file change nothing the model holds;
  each call is logged.
\<close>

definition mdelay :: "snd_sof_dev \<Rightarrow> nat \<Rightarrow> snd_sof_dev" where
  "mdelay sdev ms = emit (Mdelay ms) sdev"

definition msleep :: "snd_sof_dev \<Rightarrow> nat \<Rightarrow> snd_sof_dev" where
  "msleep sdev ms = emit (Msleep ms) sdev"

definition usleep_range :: "snd_sof_dev \<Rightarrow> nat \<Rightarrow> nat \<Rightarrow> snd_sof_dev" where
  "usleep_range sdev lo hi = emit (Usleep_range lo hi) sdev"

definition dev_err :: "snd_sof_dev \<Rightarrow> string \<Rightarrow> snd_sof_dev" where
  "dev_err sdev msg = emit (Dev_err msg) sdev"

definition snd_sof_ipc_reply :: "snd_sof_dev \<Rightarrow> u32 \<Rightarrow> snd_sof_dev" where
  "snd_sof_ipc_reply sdev hdr = emit (Ipc_reply hdr) sdev"

definition snd_sof_dsp_panic :: "snd_sof_dev \<Rightarrow> u32 \<Rightarrow> snd_sof_dev" where
  "snd_sof_dsp_panic sdev offset = emit (Dsp_panic offset) sdev"

definition snd_sof_ipc_msgs_rx :: "snd_sof_dev \<Rightarrow> snd_sof_dev" where
  "snd_sof_ipc_msgs_rx sdev = emit Ipc_msgs_rx sdev"

text \<open>
  \<^verbatim>\<open>snd_sof_debugfs_create_item\<close>, with the address given as the byte offset into the DSP
  region.
\<close>

definition snd_sof_debugfs_create_item ::
  "snd_sof_dev \<Rightarrow> nat \<Rightarrow> u32 \<Rightarrow> string \<Rightarrow> snd_sof_dev" where
  "snd_sof_debugfs_create_item sdev addr sz name = emit (Debugfs_create_item addr sz name) sdev"

section \<open>DSP control\<close>

definition hsw_reset :: "hsw_consts \<Rightarrow> snd_sof_dev \<Rightarrow> int \<times> snd_sof_dev" where
  "hsw_reset k sdev =
     (let sdev = snd_sof_dsp_update_bits_unlocked sdev HSW_DSP_BAR (SHIM_CSR k)
                   (SHIM_CSR_RST k OR SHIM_CSR_STALL k)
                   (SHIM_CSR_RST k OR SHIM_CSR_STALL k);
          sdev = mdelay sdev 10;
          sdev = snd_sof_dsp_update_bits_unlocked sdev HSW_DSP_BAR (SHIM_CSR k)
                   (SHIM_CSR_RST k OR SHIM_CSR_STALL k)
                   (SHIM_CSR_STALL k)
      in (0, sdev))"

text \<open>
  The poll of \<^verbatim>\<open>hsw_set_dsp_D0\<close>, \<^verbatim>\<open>while (tries--) { ... }\<close>.  The power-state field of
  \<^verbatim>\<open>PCI_PMCS\<close> is driven by the device: what \<^verbatim>\<open>readl\<close> returns there is what the device
  reports, not what the host wrote last.  The device is given by \<open>pmcs\<close>, the value it
  presents at each read, counted from 0; \<open>i\<close> is the number of reads made so far and
  \<open>tries\<close> the value of the counter before the test.  The result is \<open>True\<close> when the loop
  leaves through \<^verbatim>\<open>goto finish\<close>.
\<close>

fun hsw_set_dsp_D0_poll ::
  "hsw_consts \<Rightarrow> (nat \<Rightarrow> u32) \<Rightarrow> nat \<Rightarrow> nat \<Rightarrow> snd_sof_dev \<Rightarrow> bool \<times> snd_sof_dev" where
  "hsw_set_dsp_D0_poll k pmcs 0 i sdev = (False, sdev)"
| "hsw_set_dsp_D0_poll k pmcs (Suc tries) i sdev =
     (let sdev = emit (Readl HSW_PCI_BAR (PCI_PMCS k) (pmcs i)) sdev;
          reg = pmcs i AND PCI_PMCS_PS_MASK k
      in if reg = 0 then (True, sdev)
         else hsw_set_dsp_D0_poll k pmcs tries (Suc i) (msleep sdev 20))"

text \<open>The code of \<^verbatim>\<open>hsw_set_dsp_D0\<close> from the label \<^verbatim>\<open>finish\<close> on.\<close>

definition hsw_set_dsp_D0_finish :: "hsw_consts \<Rightarrow> snd_sof_dev \<Rightarrow> int \<times> snd_sof_dev" where
  "hsw_set_dsp_D0_finish k sdev =
     (let sdev = snd_sof_dsp_update_bits_unlocked sdev HSW_DSP_BAR (SHIM_CSR k)
                   (SHIM_CSR_S1IOCS k OR SHIM_CSR_SBCS1 k OR SHIM_CSR_LPCS k) 0;
          sdev = snd_sof_dsp_update_bits_unlocked sdev HSW_DSP_BAR (SHIM_CSR k)
                   (SHIM_CSR_STALL k OR SHIM_CSR_DCS_MASK k)
                   (SHIM_CSR_STALL k OR SHIM_CSR_DCS k 4);
          sdev = snd_sof_dsp_update_bits_unlocked sdev HSW_DSP_BAR (SHIM_CLKCTL k)
                   (SHIM_CLKCTL_MASK k OR SHIM_CLKCTL_DCPLCG k OR SHIM_CLKCTL_SCOE0 k)
                   (SHIM_CLKCTL_MASK k OR SHIM_CLKCTL_DCPLCG k OR SHIM_CLKCTL_SCOE0 k);
          sdev = snd (hsw_reset k sdev);
          sdev = snd_sof_dsp_update_bits_unlocked sdev HSW_PCI_BAR (PCI_VDRTCTL2 k)
                   (PCI_VDRTCL2_DCLCGE k OR PCI_VDRTCL2_DTCGE k)
                   (PCI_VDRTCL2_DCLCGE k OR PCI_VDRTCL2_DTCGE k);
          sdev = usleep_range sdev 50 55;
          sdev = snd_sof_dsp_update_bits_unlocked sdev HSW_PCI_BAR (PCI_VDRTCTL2 k)
                   (PCI_VDRTCL2_APLLSE_MASK k) 0;
          sdev = snd_sof_dsp_update_bits_unlocked sdev HSW_PCI_BAR (PCI_VDRTCTL0 k)
                   (PCI_VDRTCL0_DSRAMPGE_MASK k OR PCI_VDRTCL0_ISRAMPGE_MASK k) 0;
          sdev = snd_sof_dsp_update_bits_unlocked sdev HSW_DSP_BAR (SHIM_CSR2 k)
                   (SHIM_CSR2_SDFD_SSP1 k) (SHIM_CSR2_SDFD_SSP1 k);
          sdev = snd_sof_dsp_update_bits sdev HSW_DSP_BAR (SHIM_HMDC k)
                   (SHIM_HMDC_HDDA_E0_ALLCH k OR SHIM_HMDC_HDDA_E1_ALLCH k)
                   (SHIM_HMDC_HDDA_E0_ALLCH k OR SHIM_HMDC_HDDA_E1_ALLCH k);
          sdev = snd_sof_dsp_update_bits sdev HSW_DSP_BAR (SHIM_IMRX k)
                   (SHIM_IMRX_BUSY k OR SHIM_IMRX_DONE k) 0;
          sdev = snd_sof_dsp_update_bits sdev HSW_DSP_BAR (SHIM_IMRD k)
                   (SHIM_IMRD_DONE k OR SHIM_IMRD_BUSY k OR SHIM_IMRD_SSP0 k OR SHIM_IMRD_DMAC k) 0;
          sdev = snd_sof_dsp_write sdev HSW_DSP_BAR (SHIM_IPCX k) 0;
          sdev = snd_sof_dsp_write sdev HSW_DSP_BAR (SHIM_IPCD k) 0;
          sdev = snd_sof_dsp_write sdev HSW_DSP_BAR 0x80 0x6;
          sdev = snd_sof_dsp_write sdev HSW_DSP_BAR 0xe0 0x300a
      in (0, sdev))"

definition hsw_set_dsp_D0 ::
  "hsw_consts \<Rightarrow> (nat \<Rightarrow> u32) \<Rightarrow> snd_sof_dev \<Rightarrow> int \<times> snd_sof_dev" where
  "hsw_set_dsp_D0 k pmcs sdev =
     (let sdev = snd_sof_dsp_update_bits_unlocked sdev HSW_PCI_BAR (PCI_VDRTCTL2 k)
                   (PCI_VDRTCL2_DCLCGE k OR PCI_VDRTCL2_DTCGE k) 0;
          sdev = snd_sof_dsp_update_bits_unlocked sdev HSW_PCI_BAR (PCI_VDRTCTL0 k)
                   (PCI_VDRTCL0_D3PGD k) (PCI_VDRTCL0_D3PGD k);
          sdev = snd_sof_dsp_update_bits_unlocked sdev HSW_PCI_BAR (PCI_PMCS k)
                   (PCI_PMCS_PS_MASK k) 0;
          (ready, sdev) = hsw_set_dsp_D0_poll k pmcs 10 0 sdev
      in if ready then hsw_set_dsp_D0_finish k sdev else (- ENODEV, sdev))"

section \<open>Doorbell interrupt handler and thread\<close>

definition hsw_irq_handler :: "hsw_consts \<Rightarrow> snd_sof_dev \<Rightarrow> irqreturn \<times> snd_sof_dev" where
  "hsw_irq_handler k sdev =
     (let ret = IRQ_NONE;
          isr = snd_sof_dsp_read sdev HSW_DSP_BAR (SHIM_ISRX k);
          (ret, sdev) =
            (if isr AND SHIM_ISRX_DONE k \<noteq> 0
             then (IRQ_WAKE_THREAD,
                   snd_sof_dsp_update_bits_unlocked sdev HSW_DSP_BAR (SHIM_IMRX k)
                     (SHIM_IMRX_DONE k) (SHIM_IMRX_DONE k))
             else (ret, sdev));
          (ret, sdev) =
            (if isr AND SHIM_ISRX_BUSY k \<noteq> 0
             then (IRQ_WAKE_THREAD,
                   snd_sof_dsp_update_bits_unlocked sdev HSW_DSP_BAR (SHIM_IMRX k)
                     (SHIM_IMRX_BUSY k) (SHIM_IMRX_BUSY k))
             else (ret, sdev))
      in (ret, sdev))"

definition hsw_irq_thread :: "hsw_consts \<Rightarrow> snd_sof_dev \<Rightarrow> irqreturn \<times> snd_sof_dev" where
  "hsw_irq_thread k sdev =
     (let ipcx = snd_sof_dsp_read sdev HSW_DSP_BAR (SHIM_IPCX k);
          sdev =
            (if ipcx AND SHIM_IPCX_DONE k \<noteq> 0
             then (let hdr = get_le32 (hsw_mailbox_read sdev (box_offset (host_box sdev)) 4) 0;
                       sdev = snd_sof_ipc_reply sdev hdr;
                       sdev = snd_sof_dsp_update_bits_unlocked sdev HSW_DSP_BAR (SHIM_IPCX k)
                                (SHIM_IPCX_DONE k) 0
                   in snd_sof_dsp_update_bits_unlocked sdev HSW_DSP_BAR (SHIM_IMRX k)
                        (SHIM_IMRX_DONE k) 0)
             else sdev);
          ipcd = snd_sof_dsp_read sdev HSW_DSP_BAR (SHIM_IPCD k);
          sdev =
            (if ipcd AND SHIM_IPCD_BUSY k \<noteq> 0
             then (if ipcd AND SOF_IPC_PANIC_MAGIC_MASK k = SOF_IPC_PANIC_MAGIC k
                   then snd_sof_dsp_panic sdev (HSW_PANIC_OFFSET ipcx + MBOX_OFFSET)
                   else snd_sof_ipc_msgs_rx sdev)
             else sdev)
      in (IRQ_HANDLED, sdev))"

section \<open>Firmware ready: the window table\<close>

text \<open>The local variables of \<^verbatim>\<open>hsw_get_windows\<close>.\<close>

record window_locals =
  outbox_offset :: u32
  stream_offset :: u32
  inbox_offset :: u32
  outbox_size :: u32
  stream_size :: u32
  inbox_size :: u32

text \<open>
  The \<^verbatim>\<open>for\<close> loop of \<^verbatim>\<open>hsw_get_windows\<close> over the elements still to visit.  \<open>Inl\<close> is the
  \<^verbatim>\<open>return\<close> of the default arm, with the device as it is then; \<open>Inr\<close> is the end of the
  table, with the local variables.  The offsets \<^verbatim>\<open>elem->offset + MBOX_OFFSET\<close> are 32-bit
  sums where they are assigned to a local variable and pointer sums where they are added
  to the region's base.
\<close>

fun hsw_get_windows_loop ::
  "sof_ipc_window_elem list \<Rightarrow> window_locals \<Rightarrow> snd_sof_dev
     \<Rightarrow> snd_sof_dev + window_locals \<times> snd_sof_dev" where
  "hsw_get_windows_loop [] w sdev = Inr (w, sdev)"
| "hsw_get_windows_loop (elem # rest) w sdev =
     (case elem_type elem of
        SOF_IPC_REGION_UPBOX \<Rightarrow>
          (let w = w\<lparr>inbox_offset := elem_offset elem + MBOX_OFFSET,
                     inbox_size := elem_size elem\<rparr>;
               sdev = snd_sof_debugfs_create_item sdev (unat (inbox_offset w))
                        (elem_size elem) ''inbox''
           in hsw_get_windows_loop rest w sdev)
      | SOF_IPC_REGION_DOWNBOX \<Rightarrow>
          (let w = w\<lparr>outbox_offset := elem_offset elem + MBOX_OFFSET,
                     outbox_size := elem_size elem\<rparr>;
               sdev = snd_sof_debugfs_create_item sdev (unat (outbox_offset w))
                        (elem_size elem) ''outbox''
           in hsw_get_windows_loop rest w sdev)
      | SOF_IPC_REGION_TRACE \<Rightarrow>
          (let sdev = snd_sof_debugfs_create_item sdev
                        (unat (elem_offset elem) + unat MBOX_OFFSET) (elem_size elem) ''etrace''
           in hsw_get_windows_loop rest w sdev)
      | SOF_IPC_REGION_DEBUG \<Rightarrow>
          (let sdev = snd_sof_debugfs_create_item sdev
                        (unat (elem_offset elem) + unat MBOX_OFFSET) (elem_size elem) ''debug''
           in hsw_get_windows_loop rest w sdev)
      | SOF_IPC_REGION_STREAM \<Rightarrow>
          (let w = w\<lparr>stream_offset := elem_offset elem + MBOX_OFFSET,
                     stream_size := elem_size elem\<rparr>;
               sdev = snd_sof_debugfs_create_item sdev (unat (stream_offset w))
                        (elem_size elem) ''stream''
           in hsw_get_windows_loop rest w sdev)
      | SOF_IPC_REGION_REGS \<Rightarrow>
          (let sdev = snd_sof_debugfs_create_item sdev
                        (unat (elem_offset elem) + unat MBOX_OFFSET) (elem_size elem) ''regs''
           in hsw_get_windows_loop rest w sdev)
      | SOF_IPC_REGION_EXCEPTION \<Rightarrow>
          (let sdev = sdev\<lparr>dsp_oops_offset := elem_offset elem + MBOX_OFFSET\<rparr>;
               sdev = snd_sof_debugfs_create_item sdev
                        (unat (elem_offset elem) + unat MBOX_OFFSET) (elem_size elem)
                        ''exception''
           in hsw_get_windows_loop rest w sdev)
      | SOF_IPC_REGION_OTHER t \<Rightarrow>
          Inl (dev_err sdev ''error: get illegal window info''))"

definition hsw_get_windows :: "snd_sof_dev \<Rightarrow> snd_sof_dev" where
  "hsw_get_windows sdev =
     (case info_window sdev of
        None \<Rightarrow> dev_err sdev ''error: have no window info''
      | Some window \<Rightarrow>
          (case hsw_get_windows_loop window
                  \<lparr>outbox_offset = 0, stream_offset = 0, inbox_offset = 0,
                   outbox_size = 0, stream_size = 0, inbox_size = 0\<rparr> sdev of
             Inl sdev \<Rightarrow> sdev
           | Inr (w, sdev) \<Rightarrow>
               if outbox_size w = 0 \<or> inbox_size w = 0
               then dev_err sdev ''error: get illegal mailbox window''
               else (let sdev = snd_sof_dsp_mailbox_init sdev (inbox_offset w) (inbox_size w)
                                  (outbox_offset w) (outbox_size w)
                     in sdev\<lparr>stream_box :=
                          \<lparr>box_offset = stream_offset w, box_size = stream_size w\<rparr>\<rparr>)))"

section \<open>IPC mailbox: the reply\<close>

text \<open>
  The first read of \<^verbatim>\<open>hsw_get_reply\<close>: \<^verbatim>\<open>sizeof(reply)\<close> bytes of the host box copied
  over the local \<^verbatim>\<open>reply\<close>, whose two fields are then the 32-bit values at their offsets.
\<close>

definition read_reply :: "hsw_consts \<Rightarrow> snd_sof_dev \<Rightarrow> sof_ipc_reply" where
  "read_reply k sdev =
     (let raw = hsw_mailbox_read sdev (box_offset (host_box sdev)) (sizeof_sof_ipc_reply k)
      in \<lparr>reply_hdr_size = get_le32 raw (offsetof_reply_hdr_size k),
          reply_error = get_le32 raw (offsetof_reply_error k)\<rparr>)"

text \<open>
  The \<^verbatim>\<open>if\<close> of \<^verbatim>\<open>hsw_get_reply\<close> that chooses \<^verbatim>\<open>size\<close> and \<^verbatim>\<open>ret\<close>, in this order in
  the result.  \<^verbatim>\<open>reply.hdr.size != msg->reply_size\<close> compares at the width of \<^verbatim>\<open>size_t\<close>;
  \<^verbatim>\<open>size = msg->reply_size\<close> keeps the low 32 bits.
\<close>

definition hsw_get_reply_check ::
  "hsw_consts \<Rightarrow> snd_sof_dev \<Rightarrow> snd_sof_ipc_msg \<Rightarrow> sof_ipc_reply \<Rightarrow> u32 \<times> int \<times> snd_sof_dev" where
  "hsw_get_reply_check k sdev msg reply =
     (if sint (reply_error reply) < 0
      then (of_nat (sizeof_sof_ipc_reply k), sint (reply_error reply), sdev)
      else if unat (reply_hdr_size reply) \<noteq> reply_size msg
           then (of_nat (reply_size msg), - EINVAL,
                 dev_err sdev ''error: reply expected 0x%zx got 0x%x bytes'')
           else (reply_hdr_size reply, 0, sdev))"

text \<open>A copy of \<open>bytes\<close> to the start of the buffer \<open>buf\<close>.\<close>

definition copy_to :: "u8 list \<Rightarrow> u8 list \<Rightarrow> u8 list" where
  "copy_to buf bytes = bytes @ drop (length bytes) buf"

definition hsw_get_reply ::
  "hsw_consts \<Rightarrow> snd_sof_dev \<Rightarrow> snd_sof_ipc_msg \<Rightarrow> int \<times> snd_sof_ipc_msg \<times> snd_sof_dev" where
  "hsw_get_reply k sdev msg =
     (let reply = read_reply k sdev;
          (sz, ret, sdev) = hsw_get_reply_check k sdev msg reply;
          msg = (if msg_data msg \<noteq> None \<and> 0 < sz
                 then msg\<lparr>reply_data := copy_to (reply_data msg)
                        (hsw_mailbox_read sdev (box_offset (host_box sdev)) (unat sz))\<rparr>
                 else msg)
      in (ret, msg, sdev))"

section \<open>Reading the event log\<close>

text \<open>
  Names for parts of the event log of \<open>hsw_set_dsp_D0\<close>: the raw register reads among the
  events, the two events of one round of the poll that finds the field set (the read of
  \<^verbatim>\<open>PCI_PMCS\<close>, then \<^verbatim>\<open>msleep(20)\<close>), the three updates before the poll, and the device
  after these three updates.
\<close>

fun is_readl :: "event \<Rightarrow> bool" where
  "is_readl (Readl b offset v) = True"
| "is_readl e = False"

definition poll_round :: "hsw_consts \<Rightarrow> (nat \<Rightarrow> u32) \<Rightarrow> nat \<Rightarrow> event list" where
  "poll_round k pmcs i = [Readl HSW_PCI_BAR (PCI_PMCS k) (pmcs i), Msleep 20]"

definition D0_prologue :: "hsw_consts \<Rightarrow> event list" where
  "D0_prologue k =
     [Update_bits HSW_PCI_BAR (PCI_VDRTCTL2 k)
        (PCI_VDRTCL2_DCLCGE k OR PCI_VDRTCL2_DTCGE k) 0,
      Update_bits HSW_PCI_BAR (PCI_VDRTCTL0 k) (PCI_VDRTCL0_D3PGD k) (PCI_VDRTCL0_D3PGD k),
      Update_bits HSW_PCI_BAR (PCI_PMCS k) (PCI_PMCS_PS_MASK k) 0]"

definition D0_request :: "hsw_consts \<Rightarrow> snd_sof_dev \<Rightarrow> snd_sof_dev" where
  "D0_request k sdev =
     snd_sof_dsp_update_bits_unlocked
       (snd_sof_dsp_update_bits_unlocked
          (snd_sof_dsp_update_bits_unlocked sdev HSW_PCI_BAR (PCI_VDRTCTL2 k)
             (PCI_VDRTCL2_DCLCGE k OR PCI_VDRTCL2_DTCGE k) 0)
          HSW_PCI_BAR (PCI_VDRTCTL0 k) (PCI_VDRTCL0_D3PGD k) (PCI_VDRTCL0_D3PGD k))
       HSW_PCI_BAR (PCI_PMCS k) (PCI_PMCS_PS_MASK k) 0"

section \<open>Reading the window table\<close>

text \<open>
  What a window table declares, in the words of the specification: the types the driver
  recognises, the last element of a given type (a later element of the same type
  replaces an earlier one), and the size and offset the table declares for a type, the
  size being 0 when the table has no element of that type.
\<close>

fun recognised :: "sof_ipc_region \<Rightarrow> bool" where
  "recognised (SOF_IPC_REGION_OTHER t) = False"
| "recognised r = True"

fun last_window :: "sof_ipc_region \<Rightarrow> sof_ipc_window_elem list \<Rightarrow> sof_ipc_window_elem option" where
  "last_window t [] = None"
| "last_window t (e # es) =
     (case last_window t es of
        Some e' \<Rightarrow> Some e'
      | None \<Rightarrow> if elem_type e = t then Some e else None)"

definition declared_size :: "sof_ipc_region \<Rightarrow> sof_ipc_window_elem list \<Rightarrow> u32" where
  "declared_size t tbl = (case last_window t tbl of None \<Rightarrow> 0 | Some e \<Rightarrow> elem_size e)"

definition declared_offset :: "sof_ipc_region \<Rightarrow> sof_ipc_window_elem list \<Rightarrow> u32" where
  "declared_offset t tbl = (case last_window t tbl of None \<Rightarrow> 0 | Some e \<Rightarrow> elem_offset e)"

section \<open>A concrete instance\<close>

text \<open>
  One choice of the parameters, with the registers of the DSP region at 8-byte steps from
  offset \<open>0xE7000\<close> and each flag on a bit of its own, and a device over zeroed regions
  with the bootstrap mailbox.  They serve to run the model on concrete inputs.
\<close>

definition hsw_example_consts :: hsw_consts where
  "hsw_example_consts =
     \<lparr>SHIM_CSR = 0xE7000, SHIM_CSR2 = 0xE7080, SHIM_CLKCTL = 0xE7078, SHIM_HMDC = 0xE70E8,
      SHIM_ISRX = 0xE7018, SHIM_IMRX = 0xE7028, SHIM_IMRD = 0xE7030,
      SHIM_IPCX = 0xE7038, SHIM_IPCD = 0xE7040,
      PCI_VDRTCTL0 = 0xA0, PCI_VDRTCTL2 = 0xA8, PCI_PMCS = 0x84,
      SHIM_CSR_RST = 0x2, SHIM_CSR_STALL = 0x400, SHIM_CSR_S1IOCS = 0x800000,
      SHIM_CSR_SBCS1 = 0x8, SHIM_CSR_LPCS = 0x80000000, SHIM_CSR_DCS_MASK = 0x70,
      SHIM_CSR_DCS = (\<lambda>x. push_bit 4 x),
      SHIM_CLKCTL_MASK = 0x3000000, SHIM_CLKCTL_DCPLCG = 0x40000,
      SHIM_CLKCTL_SCOE0 = 0x10000, SHIM_CSR2_SDFD_SSP1 = 0x4,
      SHIM_HMDC_HDDA_E0_ALLCH = 0xF, SHIM_HMDC_HDDA_E1_ALLCH = 0xF00,
      SHIM_ISRX_DONE = 0x1, SHIM_ISRX_BUSY = 0x2,
      SHIM_IMRX_DONE = 0x1, SHIM_IMRX_BUSY = 0x2,
      SHIM_IMRD_DONE = 0x1, SHIM_IMRD_BUSY = 0x2,
      SHIM_IMRD_SSP0 = 0x10000, SHIM_IMRD_DMAC = 0x20000,
      SHIM_IPCX_DONE = 0x40000000, SHIM_IPCX_BUSY = 0x80000000,
      SHIM_IPCD_DONE = 0x40000000, SHIM_IPCD_BUSY = 0x80000000,
      PCI_PMCS_PS_MASK = 0x3,
      PCI_VDRTCL2_DCLCGE = 0x2, PCI_VDRTCL2_DTCGE = 0x400,
      PCI_VDRTCL2_APLLSE_MASK = 0x80000000,
      PCI_VDRTCL0_D3PGD = 0x1, PCI_VDRTCL0_DSRAMPGE_MASK = 0x3FC0000,
      PCI_VDRTCL0_ISRAMPGE_MASK = 0x3FC00,
      SOF_IPC_PANIC_MAGIC = 0x0dead000, SOF_IPC_PANIC_MAGIC_MASK = 0x0ffff000,
      sizeof_sof_ipc_reply = 12, offsetof_reply_hdr_size = 0, offsetof_reply_error = 8\<rparr>"

definition hsw_example_dev :: snd_sof_dev where
  "hsw_example_dev =
     \<lparr>bar = (\<lambda>b a. 0), mmio_bar = HSW_DSP_BAR, mailbox_bar = HSW_DSP_BAR,
      dsp_box = \<lparr>box_offset = MBOX_OFFSET, box_size = MBOX_SIZE\<rparr>,
      host_box = \<lparr>box_offset = 0, box_size = 0\<rparr>,
      stream_box = \<lparr>box_offset = 0, box_size = 0\<rparr>,
      dsp_oops_offset = 0, info_window = None, events = []\<rparr>"

text \<open>A window table that declares both mailboxes.\<close>

definition example_windows :: "sof_ipc_window_elem list" where
  "example_windows =
     [\<lparr>elem_type = SOF_IPC_REGION_UPBOX, elem_offset = 0x1000, elem_size = 0x400\<rparr>,
      \<lparr>elem_type = SOF_IPC_REGION_DOWNBOX, elem_offset = 0, elem_size = 0x400\<rparr>]"

section \<open>Facts about the register and memory access\<close>


lemma readl_writel_same: "readl (writel v a mem) a = v"
  unfolding readl_def writel_def byte_of_def
  apply simp
  apply (rule bit_word_eqI)
  subgoal for n
    by (cases "n < 8"; cases "n < 16"; cases "n < 24") (auto simp add: bit_simps)
  done

lemma readl_writel_other:
  "a + 4 \<le> b \<or> b + 4 \<le> a \<Longrightarrow> readl (writel v a mem) b = readl mem b"
  unfolding readl_def writel_def by auto




section \<open>Block write and read\<close>







section \<open>Facts about the helpers\<close>

lemma emit_fields:
  "bar (emit e sdev) = bar sdev"
  "events (emit e sdev) = events sdev @ [e]"
  "mmio_bar (emit e sdev) = mmio_bar sdev"
  "mailbox_bar (emit e sdev) = mailbox_bar sdev"
  "dsp_box (emit e sdev) = dsp_box sdev"
  "host_box (emit e sdev) = host_box sdev"
  "stream_box (emit e sdev) = stream_box sdev"
  "dsp_oops_offset (emit e sdev) = dsp_oops_offset sdev"
  "info_window (emit e sdev) = info_window sdev"
  by (simp_all add: emit_def)

lemma hsw_write_fields:
  "bar (hsw_write sdev b a v) = (bar sdev)(b := writel v a (bar sdev b))"
  "events (hsw_write sdev b a v) = events sdev"
  "mmio_bar (hsw_write sdev b a v) = mmio_bar sdev"
  "mailbox_bar (hsw_write sdev b a v) = mailbox_bar sdev"
  "dsp_box (hsw_write sdev b a v) = dsp_box sdev"
  "host_box (hsw_write sdev b a v) = host_box sdev"
  "stream_box (hsw_write sdev b a v) = stream_box sdev"
  "dsp_oops_offset (hsw_write sdev b a v) = dsp_oops_offset sdev"
  "info_window (hsw_write sdev b a v) = info_window sdev"
  by (simp_all add: hsw_write_def)

lemma hsw_read_emit: "hsw_read (emit e sdev) b a = hsw_read sdev b a"
  by (simp add: hsw_read_def emit_fields)

lemma hsw_read_write_same: "hsw_read (hsw_write sdev b a v) b a = v"
  by (simp add: hsw_read_def hsw_write_fields readl_writel_same)

lemma hsw_read_write_other:
  "b' \<noteq> b \<or> a + 4 \<le> a' \<or> a' + 4 \<le> a \<Longrightarrow>
   hsw_read (hsw_write sdev b a v) b' a' = hsw_read sdev b' a'"
  by (auto simp add: hsw_read_def hsw_write_fields readl_writel_other)

lemma events_update_bits:
  "events (snd_sof_dsp_update_bits_unlocked sdev b offset msk v) =
     events sdev @ [Update_bits b offset msk v]"
  "events (snd_sof_dsp_update_bits sdev b offset msk v) =
     events sdev @ [Update_bits b offset msk v]"
  by (simp_all add: snd_sof_dsp_update_bits_def snd_sof_dsp_update_bits_unlocked_def
      Let_def emit_fields hsw_write_fields)

lemma read_update_bits_same:
  "snd_sof_dsp_read (snd_sof_dsp_update_bits_unlocked sdev b offset msk v) b offset =
     (snd_sof_dsp_read sdev b offset AND NOT msk) OR (v AND msk)"
  by (simp add: snd_sof_dsp_read_def snd_sof_dsp_update_bits_unlocked_def Let_def
      hsw_read_emit hsw_read_write_same)

lemma read_update_bits_other:
  "b' \<noteq> b \<or> unat offset + 4 \<le> unat offset' \<or> unat offset' + 4 \<le> unat offset \<Longrightarrow>
   snd_sof_dsp_read (snd_sof_dsp_update_bits_unlocked sdev b offset msk v) b' offset' =
     snd_sof_dsp_read sdev b' offset'"
  by (simp add: snd_sof_dsp_read_def snd_sof_dsp_update_bits_unlocked_def Let_def
      hsw_read_emit hsw_read_write_other)

lemma read_mdelay: "snd_sof_dsp_read (mdelay sdev ms) b offset = snd_sof_dsp_read sdev b offset"
  by (simp add: snd_sof_dsp_read_def mdelay_def hsw_read_emit)

lemma events_delays:
  "events (mdelay sdev ms) = events sdev @ [Mdelay ms]"
  "events (msleep sdev ms) = events sdev @ [Msleep ms]"
  "events (usleep_range sdev lo hi) = events sdev @ [Usleep_range lo hi]"
  by (simp_all add: mdelay_def msleep_def usleep_range_def emit_fields)

lemma events_dsp_write:
  "events (snd_sof_dsp_write sdev b offset v) = events sdev @ [Dsp_write b offset v]"
  by (simp add: snd_sof_dsp_write_def emit_fields hsw_write_fields)

lemma word_set_bits: "((x AND NOT m) OR (m AND m)) AND m = (m :: u32)"
  by (rule bit_word_eqI) (auto simp add: bit_simps)

lemma word_keep_bits: "((x AND NOT m) OR (v AND m)) AND NOT m = x AND NOT (m :: u32)"
  by (rule bit_word_eqI) (auto simp add: bit_simps)

lemma word_put_bits: "((x AND NOT m) OR (v AND m)) AND m = v AND (m :: u32)"
  by (rule bit_word_eqI) (auto simp add: bit_simps)

lemma word_disjoint_bits:
  assumes "r AND s = (0 :: u32)"
  shows "\<not> (bit r n \<and> bit s n)"
proof -
  from assms have "bit (r AND s) n = bit (0 :: u32) n" by simp
  then show ?thesis by (simp add: bit_and_iff)
qed


section \<open>Reset\<close>

text \<open>
  Claim C7.  From every prior state \<open>hsw_reset\<close> returns 0.  It first sets reset and stall
  together, so that both bits read as set while it waits the 10 ms of its one delay; then
  it updates the same two bits to stall alone.  Afterwards the reset bit of the control
  register is clear and the stall bit is set, and the other bits are as they were.  The
  two flags are taken to be different bits of the register.
\<close>

theorem hsw_reset_stalled:
  assumes "SHIM_CSR_RST k AND SHIM_CSR_STALL k = 0"
  shows
    "(let both = SHIM_CSR_RST k OR SHIM_CSR_STALL k;
          held = snd_sof_dsp_update_bits_unlocked sdev HSW_DSP_BAR (SHIM_CSR k) both both;
          csr_held = snd_sof_dsp_read (mdelay held 10) HSW_DSP_BAR (SHIM_CSR k);
          after = snd (hsw_reset k sdev);
          csr = snd_sof_dsp_read after HSW_DSP_BAR (SHIM_CSR k)
      in fst (hsw_reset k sdev) = 0
       \<and> csr_held AND both = both
       \<and> csr AND SHIM_CSR_RST k = 0
       \<and> csr AND SHIM_CSR_STALL k = SHIM_CSR_STALL k
       \<and> csr AND NOT both = snd_sof_dsp_read sdev HSW_DSP_BAR (SHIM_CSR k) AND NOT both
       \<and> events after = events sdev @
            [Update_bits HSW_DSP_BAR (SHIM_CSR k) both both, Mdelay 10,
             Update_bits HSW_DSP_BAR (SHIM_CSR k) both (SHIM_CSR_STALL k)])"
proof -
  define both where "both = SHIM_CSR_RST k OR SHIM_CSR_STALL k"
  define held where
    "held = snd_sof_dsp_update_bits_unlocked sdev HSW_DSP_BAR (SHIM_CSR k) both both"
  define after where "after = snd_sof_dsp_update_bits_unlocked (mdelay held 10) HSW_DSP_BAR
     (SHIM_CSR k) both (SHIM_CSR_STALL k)"
  define old where "old = snd_sof_dsp_read sdev HSW_DSP_BAR (SHIM_CSR k)"
  have res: "hsw_reset k sdev = (0, after)"
    by (simp add: hsw_reset_def Let_def after_def held_def both_def)
  have held: "snd_sof_dsp_read (mdelay held 10) HSW_DSP_BAR (SHIM_CSR k) =
      (old AND NOT both) OR (both AND both)"
    by (simp only: read_mdelay held_def read_update_bits_same old_def)
  have csr: "snd_sof_dsp_read after HSW_DSP_BAR (SHIM_CSR k) =
      ((((old AND NOT both) OR (both AND both)) AND NOT both) OR (SHIM_CSR_STALL k AND both))"
    by (simp only: after_def read_update_bits_same held)
  have 1: "snd_sof_dsp_read (mdelay held 10) HSW_DSP_BAR (SHIM_CSR k) AND both = both"
    unfolding held by (rule word_set_bits)
  have 2: "snd_sof_dsp_read after HSW_DSP_BAR (SHIM_CSR k) AND SHIM_CSR_RST k = 0"
    unfolding csr using word_disjoint_bits [OF assms]
    by (intro bit_word_eqI) (auto simp add: bit_simps both_def)
  have 3: "snd_sof_dsp_read after HSW_DSP_BAR (SHIM_CSR k) AND SHIM_CSR_STALL k
      = SHIM_CSR_STALL k"
    unfolding csr by (intro bit_word_eqI) (auto simp add: bit_simps both_def)
  have 4: "snd_sof_dsp_read after HSW_DSP_BAR (SHIM_CSR k) AND NOT both = old AND NOT both"
    unfolding csr by (intro bit_word_eqI) (auto simp add: bit_simps)
  have 5: "events after = events sdev @
      [Update_bits HSW_DSP_BAR (SHIM_CSR k) both both, Mdelay 10,
       Update_bits HSW_DSP_BAR (SHIM_CSR k) both (SHIM_CSR_STALL k)]"
    by (simp add: after_def held_def events_update_bits events_delays)
  show ?thesis
    unfolding Let_def res fst_conv snd_conv
    using 1 2 3 4 5
    by (simp only: both_def [symmetric] held_def [symmetric] after_def [symmetric]
        old_def [symmetric] simp_thms)
qed

theorem hsw_reset_stalled_witness:
  "SHIM_CSR_RST hsw_example_consts AND SHIM_CSR_STALL hsw_example_consts = 0
   \<and> fst (hsw_reset hsw_example_consts hsw_example_dev) = 0
   \<and> snd_sof_dsp_read (snd (hsw_reset hsw_example_consts hsw_example_dev)) HSW_DSP_BAR 0xE7000
       = 0x400
   \<and> events (snd (hsw_reset hsw_example_consts hsw_example_dev)) =
       [Update_bits HSW_DSP_BAR 0xE7000 0x402 0x402, Mdelay 10,
        Update_bits HSW_DSP_BAR 0xE7000 0x402 0x400]"
proof -
  have h: "SHIM_CSR_RST hsw_example_consts AND SHIM_CSR_STALL hsw_example_consts = 0"
    by (simp add: hsw_example_consts_def)
  have old: "snd_sof_dsp_read hsw_example_dev HSW_DSP_BAR 0xE7000 = 0"
    by (simp add: snd_sof_dsp_read_def hsw_read_def readl_def hsw_example_dev_def)
  have c: "SHIM_CSR hsw_example_consts = 0xE7000" "SHIM_CSR_RST hsw_example_consts = 2"
    "SHIM_CSR_STALL hsw_example_consts = 0x400"
    by (simp_all add: hsw_example_consts_def)
  have ev: "events hsw_example_dev = []" by (simp add: hsw_example_dev_def)
  note t = hsw_reset_stalled [OF h, of hsw_example_dev, unfolded Let_def c old ev]
  have csr: "snd_sof_dsp_read (snd (hsw_reset hsw_example_consts hsw_example_dev)) HSW_DSP_BAR 0xE7000
      = 0x400"
  proof -
    let ?v = "snd_sof_dsp_read (snd (hsw_reset hsw_example_consts hsw_example_dev)) HSW_DSP_BAR 0xE7000"
    from t have a: "?v AND 0x400 = 0x400" and b: "?v AND NOT (2 OR 0x400) = 0 AND NOT (2 OR 0x400)"
      and c: "?v AND 2 = 0" by simp_all
    have "v = (v AND s) OR (v AND r) OR (v AND NOT (r OR s))" for v r s :: u32
      by (rule bit_word_eqI) (auto simp add: bit_simps)
    from this [of ?v "0x400" 2] show ?thesis unfolding a b c by simp
  qed
  from t h csr show ?thesis by simp
qed

section \<open>Interrupt handler\<close>

lemma word_or_mask_twice:
  "((((x AND NOT d) OR d) AND NOT b) OR b) AND d = (d :: u32)"
  by (rule bit_word_eqI) (auto simp add: bit_simps)

text \<open>
  Claim C8.  When the status register shows neither DONE nor BUSY, \<open>hsw_irq_handler\<close>
  returns \<open>IRQ_NONE\<close> and leaves the device as it was: nothing is masked and no thread is
  woken.  When one of them is set it returns \<open>IRQ_WAKE_THREAD\<close>, and for each bit that is
  set it has masked that bit in the interrupt mask register, by one update in the order
  DONE, BUSY; these updates are all it does.
\<close>

theorem hsw_irq_handler_masks:
  "(let isr = snd_sof_dsp_read sdev HSW_DSP_BAR (SHIM_ISRX k);
        is_done = (isr AND SHIM_ISRX_DONE k \<noteq> 0);
        is_busy = (isr AND SHIM_ISRX_BUSY k \<noteq> 0);
        ret = fst (hsw_irq_handler k sdev);
        after = snd (hsw_irq_handler k sdev);
        imrx = snd_sof_dsp_read after HSW_DSP_BAR (SHIM_IMRX k)
    in (\<not> is_done \<and> \<not> is_busy \<longrightarrow> ret = IRQ_NONE \<and> after = sdev)
     \<and> (is_done \<or> is_busy \<longrightarrow> ret = IRQ_WAKE_THREAD)
     \<and> (is_done \<longrightarrow> imrx AND SHIM_IMRX_DONE k = SHIM_IMRX_DONE k)
     \<and> (is_busy \<longrightarrow> imrx AND SHIM_IMRX_BUSY k = SHIM_IMRX_BUSY k)
     \<and> events after = events sdev
          @ (if is_done
             then [Update_bits HSW_DSP_BAR (SHIM_IMRX k) (SHIM_IMRX_DONE k) (SHIM_IMRX_DONE k)]
             else [])
          @ (if is_busy
             then [Update_bits HSW_DSP_BAR (SHIM_IMRX k) (SHIM_IMRX_BUSY k) (SHIM_IMRX_BUSY k)]
             else []))"
proof -
  define isr where "isr = snd_sof_dsp_read sdev HSW_DSP_BAR (SHIM_ISRX k)"
  define s1 where "s1 = snd_sof_dsp_update_bits_unlocked sdev HSW_DSP_BAR (SHIM_IMRX k)
     (SHIM_IMRX_DONE k) (SHIM_IMRX_DONE k)"
  consider (none) "isr AND SHIM_ISRX_DONE k = 0" "isr AND SHIM_ISRX_BUSY k = 0"
    | (d) "isr AND SHIM_ISRX_DONE k \<noteq> 0" "isr AND SHIM_ISRX_BUSY k = 0"
    | (b) "isr AND SHIM_ISRX_DONE k = 0" "isr AND SHIM_ISRX_BUSY k \<noteq> 0"
    | (db) "isr AND SHIM_ISRX_DONE k \<noteq> 0" "isr AND SHIM_ISRX_BUSY k \<noteq> 0"
    by blast
  then show ?thesis
  proof cases
    case none
    then have "hsw_irq_handler k sdev = (IRQ_NONE, sdev)"
      by (simp add: hsw_irq_handler_def Let_def isr_def)
    with none show ?thesis by (simp add: Let_def isr_def [symmetric])
  next
    case d
    then have "hsw_irq_handler k sdev = (IRQ_WAKE_THREAD, s1)"
      by (simp add: hsw_irq_handler_def Let_def isr_def s1_def)
    with d show ?thesis
      by (simp add: Let_def isr_def [symmetric] s1_def read_update_bits_same
          events_update_bits word_set_bits)
  next
    case b
    then have "hsw_irq_handler k sdev = (IRQ_WAKE_THREAD,
        snd_sof_dsp_update_bits_unlocked sdev HSW_DSP_BAR (SHIM_IMRX k)
          (SHIM_IMRX_BUSY k) (SHIM_IMRX_BUSY k))"
      by (simp add: hsw_irq_handler_def Let_def isr_def)
    with b show ?thesis
      by (simp add: Let_def isr_def [symmetric] read_update_bits_same
          events_update_bits word_set_bits)
  next
    case db
    then have "hsw_irq_handler k sdev = (IRQ_WAKE_THREAD,
        snd_sof_dsp_update_bits_unlocked s1 HSW_DSP_BAR (SHIM_IMRX k)
          (SHIM_IMRX_BUSY k) (SHIM_IMRX_BUSY k))"
      by (simp add: hsw_irq_handler_def Let_def isr_def s1_def)
    with db show ?thesis
      by (simp add: Let_def isr_def [symmetric] s1_def read_update_bits_same
          events_update_bits word_set_bits word_or_mask_twice)
  qed
qed

theorem hsw_irq_handler_masks_witness:
  "fst (hsw_irq_handler hsw_example_consts hsw_example_dev) = IRQ_NONE
   \<and> snd (hsw_irq_handler hsw_example_consts hsw_example_dev) = hsw_example_dev
   \<and> fst (hsw_irq_handler hsw_example_consts
             (hsw_write hsw_example_dev HSW_DSP_BAR 0xE7018 3)) = IRQ_WAKE_THREAD
   \<and> snd_sof_dsp_read (snd (hsw_irq_handler hsw_example_consts
             (hsw_write hsw_example_dev HSW_DSP_BAR 0xE7018 3))) HSW_DSP_BAR 0xE7028 AND 3 = 3
   \<and> events (snd (hsw_irq_handler hsw_example_consts
             (hsw_write hsw_example_dev HSW_DSP_BAR 0xE7018 3))) =
       [Update_bits HSW_DSP_BAR 0xE7028 1 1, Update_bits HSW_DSP_BAR 0xE7028 2 2]"
proof -
  let ?k = hsw_example_consts
  let ?d = "hsw_write hsw_example_dev HSW_DSP_BAR 0xE7018 3"
  have c: "SHIM_ISRX ?k = 0xE7018" "SHIM_IMRX ?k = 0xE7028" "SHIM_ISRX_DONE ?k = 1"
    "SHIM_ISRX_BUSY ?k = 2" "SHIM_IMRX_DONE ?k = 1" "SHIM_IMRX_BUSY ?k = 2"
    by (simp_all add: hsw_example_consts_def)
  have r0: "snd_sof_dsp_read hsw_example_dev HSW_DSP_BAR 0xE7018 = 0"
    by (simp add: snd_sof_dsp_read_def hsw_read_def readl_def hsw_example_dev_def)
  have r3: "snd_sof_dsp_read ?d HSW_DSP_BAR 0xE7018 = 3"
    using hsw_read_write_same [of hsw_example_dev HSW_DSP_BAR "0xE7018" 3]
    by (simp add: snd_sof_dsp_read_def)
  have ev: "events ?d = []" by (simp add: hsw_write_fields hsw_example_dev_def)
  note t0 = hsw_irq_handler_masks [of hsw_example_dev ?k, unfolded Let_def c r0]
  note t3 = hsw_irq_handler_masks [of ?d ?k, unfolded Let_def c r3 ev]
  let ?v = "snd_sof_dsp_read (snd (hsw_irq_handler ?k ?d)) HSW_DSP_BAR 0xE7028"
  from t3 have a: "?v AND 1 = 1" and b: "?v AND 2 = 2" by simp_all
  have "v AND (r OR s) = (v AND r) OR (v AND s)" for v r s :: u32
    by (rule bit_word_eqI) (auto simp add: bit_simps)
  from this [of ?v 1 2] have v: "?v AND 3 = 3" unfolding a b by simp
  from t0 t3 v show ?thesis by simp
qed

section \<open>Entering D0\<close>

lemma read_dsp_write_same:
  "snd_sof_dsp_read (snd_sof_dsp_write sdev b offset v) b offset = v"
  by (simp add: snd_sof_dsp_read_def snd_sof_dsp_write_def hsw_read_emit hsw_read_write_same)

lemma read_dsp_write_other:
  "b' \<noteq> b \<or> unat offset + 4 \<le> unat offset' \<or> unat offset' + 4 \<le> unat offset \<Longrightarrow>
   snd_sof_dsp_read (snd_sof_dsp_write sdev b offset v) b' offset' =
     snd_sof_dsp_read sdev b' offset'"
  by (simp add: snd_sof_dsp_read_def snd_sof_dsp_write_def hsw_read_emit hsw_read_write_other)

lemma events_hsw_reset:
  "events (snd (hsw_reset k sdev)) = events sdev @
     [Update_bits HSW_DSP_BAR (SHIM_CSR k) (SHIM_CSR_RST k OR SHIM_CSR_STALL k)
        (SHIM_CSR_RST k OR SHIM_CSR_STALL k),
      Mdelay 10,
      Update_bits HSW_DSP_BAR (SHIM_CSR k) (SHIM_CSR_RST k OR SHIM_CSR_STALL k)
        (SHIM_CSR_STALL k)]"
  by (simp add: hsw_reset_def Let_def events_update_bits events_delays)

text \<open>The poll that never sees the field clear: every round reads and sleeps.\<close>

lemma hsw_set_dsp_D0_poll_never:
  "(\<And>j. j < tries \<Longrightarrow> pmcs (i + j) AND PCI_PMCS_PS_MASK k \<noteq> 0) \<Longrightarrow>
   fst (hsw_set_dsp_D0_poll k pmcs tries i sdev) = False \<and>
   events (snd (hsw_set_dsp_D0_poll k pmcs tries i sdev)) =
     events sdev @ concat (map (poll_round k pmcs) [i..<i + tries])"
proof (induction tries arbitrary: i sdev)
  case 0
  then show ?case by simp
next
  case (Suc tries)
  from Suc.prems [of 0] have nz: "pmcs i AND PCI_PMCS_PS_MASK k \<noteq> 0" by simp
  have later: "\<And>j. j < tries \<Longrightarrow> pmcs (Suc i + j) AND PCI_PMCS_PS_MASK k \<noteq> 0"
    using Suc.prems [of "Suc _"] by simp
  have step: "hsw_set_dsp_D0_poll k pmcs (Suc tries) i sdev =
      hsw_set_dsp_D0_poll k pmcs tries (Suc i)
        (msleep (emit (Readl HSW_PCI_BAR (PCI_PMCS k) (pmcs i)) sdev) 20)"
    using nz by (simp add: Let_def)
  have up: "[i..<i + Suc tries] = i # [Suc i..<Suc i + tries]"
    by (simp add: upt_conv_Cons)
  show ?case
    unfolding step up using Suc.IH [OF later]
    by (simp add: events_delays emit_fields poll_round_def)
qed

text \<open>The poll that sees the field clear at read \<open>n\<close> for the first time.\<close>

lemma hsw_set_dsp_D0_poll_ready:
  "n < tries \<Longrightarrow> pmcs (i + n) AND PCI_PMCS_PS_MASK k = 0 \<Longrightarrow>
   (\<And>j. j < n \<Longrightarrow> pmcs (i + j) AND PCI_PMCS_PS_MASK k \<noteq> 0) \<Longrightarrow>
   fst (hsw_set_dsp_D0_poll k pmcs tries i sdev) = True \<and>
   events (snd (hsw_set_dsp_D0_poll k pmcs tries i sdev)) =
     events sdev @ concat (map (poll_round k pmcs) [i..<i + n])
       @ [Readl HSW_PCI_BAR (PCI_PMCS k) (pmcs (i + n))]"
proof (induction tries arbitrary: i n sdev)
  case 0
  then show ?case by simp
next
  case (Suc tries)
  show ?case
  proof (cases n)
    case 0
    with Suc.prems show ?thesis by (simp add: Let_def emit_fields)
  next
    case (Suc m)
    from Suc.prems(3) [of 0] Suc have nz: "pmcs i AND PCI_PMCS_PS_MASK k \<noteq> 0" by simp
    have m: "m < tries" "pmcs (Suc i + m) AND PCI_PMCS_PS_MASK k = 0"
      using Suc.prems(1,2) Suc by simp_all
    have later: "\<And>j. j < m \<Longrightarrow> pmcs (Suc i + j) AND PCI_PMCS_PS_MASK k \<noteq> 0"
      using Suc.prems(3) [of "Suc _"] Suc by simp
    have step: "hsw_set_dsp_D0_poll k pmcs (Suc tries) i sdev =
        hsw_set_dsp_D0_poll k pmcs tries (Suc i)
          (msleep (emit (Readl HSW_PCI_BAR (PCI_PMCS k) (pmcs i)) sdev) 20)"
      using nz by (simp add: Let_def)
    have up: "[i..<i + n] = i # [Suc i..<Suc i + m]"
      using Suc by (simp add: upt_conv_Cons)
    show ?thesis
      unfolding step up using Suc.IH [OF m later] Suc
      by (simp add: events_delays emit_fields poll_round_def)
  qed
qed

text \<open>Whatever the device reports, the poll reads at most \<open>tries\<close> times.\<close>

lemma hsw_set_dsp_D0_poll_reads:
  "length (filter is_readl (events (snd (hsw_set_dsp_D0_poll k pmcs tries i sdev))))
     \<le> length (filter is_readl (events sdev)) + tries"
proof (induction tries arbitrary: i sdev)
  case 0
  then show ?case by simp
next
  case (Suc tries)
  show ?case
  proof (cases "pmcs i AND PCI_PMCS_PS_MASK k = 0")
    case True
    then show ?thesis by (simp add: Let_def emit_fields)
  next
    case False
    then have step: "hsw_set_dsp_D0_poll k pmcs (Suc tries) i sdev =
        hsw_set_dsp_D0_poll k pmcs tries (Suc i)
          (msleep (emit (Readl HSW_PCI_BAR (PCI_PMCS k) (pmcs i)) sdev) 20)"
      by (simp add: Let_def)
    show ?thesis
      unfolding step
      using Suc.IH [of "Suc i" "msleep (emit (Readl HSW_PCI_BAR (PCI_PMCS k) (pmcs i)) sdev) 20"]
      by (simp add: events_delays emit_fields)
  qed
qed

lemma D0_finish_result:
  "fst (hsw_set_dsp_D0_finish k sdev) = 0"
  "\<exists>pre. events (snd (hsw_set_dsp_D0_finish k sdev)) = events sdev @ pre @
      [Dsp_write HSW_DSP_BAR (SHIM_IPCX k) 0, Dsp_write HSW_DSP_BAR (SHIM_IPCD k) 0,
       Dsp_write HSW_DSP_BAR 0x80 0x6, Dsp_write HSW_DSP_BAR 0xe0 0x300a]
     \<and> filter is_readl pre = []"
  "snd_sof_dsp_read (snd (hsw_set_dsp_D0_finish k sdev)) HSW_DSP_BAR 0x80 = 0x6"
  "snd_sof_dsp_read (snd (hsw_set_dsp_D0_finish k sdev)) HSW_DSP_BAR 0xe0 = 0x300a"
proof -
  show "fst (hsw_set_dsp_D0_finish k sdev) = 0"
    by (simp add: hsw_set_dsp_D0_finish_def Let_def)
  show "\<exists>pre. events (snd (hsw_set_dsp_D0_finish k sdev)) = events sdev @ pre @
      [Dsp_write HSW_DSP_BAR (SHIM_IPCX k) 0, Dsp_write HSW_DSP_BAR (SHIM_IPCD k) 0,
       Dsp_write HSW_DSP_BAR 0x80 0x6, Dsp_write HSW_DSP_BAR 0xe0 0x300a]
     \<and> filter is_readl pre = []"
    by (simp add: hsw_set_dsp_D0_finish_def Let_def events_update_bits events_delays
        events_dsp_write events_hsw_reset)
  show "snd_sof_dsp_read (snd (hsw_set_dsp_D0_finish k sdev)) HSW_DSP_BAR 0xe0 = 0x300a"
    by (simp add: hsw_set_dsp_D0_finish_def Let_def read_dsp_write_same)
  show "snd_sof_dsp_read (snd (hsw_set_dsp_D0_finish k sdev)) HSW_DSP_BAR 0x80 = 0x6"
    by (simp add: hsw_set_dsp_D0_finish_def Let_def read_dsp_write_same read_dsp_write_other)
qed

lemma hsw_set_dsp_D0_unfold:
  "hsw_set_dsp_D0 k pmcs sdev =
     (if fst (hsw_set_dsp_D0_poll k pmcs 10 0 (D0_request k sdev))
      then hsw_set_dsp_D0_finish k (snd (hsw_set_dsp_D0_poll k pmcs 10 0 (D0_request k sdev)))
      else (- ENODEV, snd (hsw_set_dsp_D0_poll k pmcs 10 0 (D0_request k sdev))))"
  by (simp add: hsw_set_dsp_D0_def D0_request_def Let_def case_prod_beta)

lemma events_D0_request: "events (D0_request k sdev) = events sdev @ D0_prologue k"
  by (simp add: D0_request_def D0_prologue_def events_update_bits)

lemma filter_readl_prologue: "filter is_readl (D0_prologue k) = []"
  by (simp add: D0_prologue_def)

lemma D0_first_ready:
  assumes "n < 10" "pmcs n AND PCI_PMCS_PS_MASK k = 0"
    and "\<And>i. i < n \<Longrightarrow> pmcs i AND PCI_PMCS_PS_MASK k \<noteq> 0"
  shows "fst (hsw_set_dsp_D0 k pmcs sdev) = 0"
    and "\<exists>rest. events (snd (hsw_set_dsp_D0 k pmcs sdev)) =
          events sdev @ D0_prologue k @ concat (map (poll_round k pmcs) [0..<n])
            @ [Readl HSW_PCI_BAR (PCI_PMCS k) (pmcs n)] @ rest
          \<and> filter is_readl rest = []"
    and "\<exists>pre. events (snd (hsw_set_dsp_D0 k pmcs sdev)) = pre @
          [Dsp_write HSW_DSP_BAR (SHIM_IPCX k) 0, Dsp_write HSW_DSP_BAR (SHIM_IPCD k) 0,
           Dsp_write HSW_DSP_BAR 0x80 0x6, Dsp_write HSW_DSP_BAR 0xe0 0x300a]"
    and "snd_sof_dsp_read (snd (hsw_set_dsp_D0 k pmcs sdev)) HSW_DSP_BAR 0x80 = 0x6"
    and "snd_sof_dsp_read (snd (hsw_set_dsp_D0 k pmcs sdev)) HSW_DSP_BAR 0xe0 = 0x300a"
proof -
  let ?p = "hsw_set_dsp_D0_poll k pmcs 10 0 (D0_request k sdev)"
  have p: "fst ?p = True"
    "events (snd ?p) = events sdev @ D0_prologue k @ concat (map (poll_round k pmcs) [0..<n])
       @ [Readl HSW_PCI_BAR (PCI_PMCS k) (pmcs n)]"
    using hsw_set_dsp_D0_poll_ready [of n 10 pmcs 0 k "D0_request k sdev"] assms
    by (simp_all add: events_D0_request)
  have d: "hsw_set_dsp_D0 k pmcs sdev = hsw_set_dsp_D0_finish k (snd ?p)"
    using p(1) by (simp add: hsw_set_dsp_D0_unfold)
  show "fst (hsw_set_dsp_D0 k pmcs sdev) = 0"
    unfolding d by (rule D0_finish_result)
  obtain pre where pre: "events (snd (hsw_set_dsp_D0_finish k (snd ?p))) = events (snd ?p) @ pre @
      [Dsp_write HSW_DSP_BAR (SHIM_IPCX k) 0, Dsp_write HSW_DSP_BAR (SHIM_IPCD k) 0,
       Dsp_write HSW_DSP_BAR 0x80 0x6, Dsp_write HSW_DSP_BAR 0xe0 0x300a]"
     "filter is_readl pre = []"
    using D0_finish_result(2) [of k "snd ?p"] by blast
  show "\<exists>rest. events (snd (hsw_set_dsp_D0 k pmcs sdev)) =
          events sdev @ D0_prologue k @ concat (map (poll_round k pmcs) [0..<n])
            @ [Readl HSW_PCI_BAR (PCI_PMCS k) (pmcs n)] @ rest
          \<and> filter is_readl rest = []"
    unfolding d pre(1) p(2) using pre(2) by simp
  show "\<exists>pre. events (snd (hsw_set_dsp_D0 k pmcs sdev)) = pre @
          [Dsp_write HSW_DSP_BAR (SHIM_IPCX k) 0, Dsp_write HSW_DSP_BAR (SHIM_IPCD k) 0,
           Dsp_write HSW_DSP_BAR 0x80 0x6, Dsp_write HSW_DSP_BAR 0xe0 0x300a]"
    unfolding d pre(1) by (metis append.assoc)
  show "snd_sof_dsp_read (snd (hsw_set_dsp_D0 k pmcs sdev)) HSW_DSP_BAR 0x80 = 0x6"
    unfolding d by (rule D0_finish_result)
  show "snd_sof_dsp_read (snd (hsw_set_dsp_D0 k pmcs sdev)) HSW_DSP_BAR 0xe0 = 0x300a"
    unfolding d by (rule D0_finish_result)
qed

lemma D0_never_ready:
  assumes "\<And>i. i < 10 \<Longrightarrow> pmcs i AND PCI_PMCS_PS_MASK k \<noteq> 0"
  shows "fst (hsw_set_dsp_D0 k pmcs sdev) = - ENODEV"
    and "events (snd (hsw_set_dsp_D0 k pmcs sdev)) =
          events sdev @ D0_prologue k @ concat (map (poll_round k pmcs) [0..<10])"
proof -
  let ?p = "hsw_set_dsp_D0_poll k pmcs 10 0 (D0_request k sdev)"
  have p: "fst ?p = False"
    "events (snd ?p) = events sdev @ D0_prologue k @ concat (map (poll_round k pmcs) [0..<10])"
    using hsw_set_dsp_D0_poll_never [of 10 pmcs 0 k "D0_request k sdev"] assms
    by (simp_all add: events_D0_request)
  have d: "hsw_set_dsp_D0 k pmcs sdev = (- ENODEV, snd ?p)"
    using p(1) by (simp add: hsw_set_dsp_D0_unfold)
  show "fst (hsw_set_dsp_D0 k pmcs sdev) = - ENODEV" unfolding d by simp
  show "events (snd (hsw_set_dsp_D0 k pmcs sdev)) =
          events sdev @ D0_prologue k @ concat (map (poll_round k pmcs) [0..<10])"
    unfolding d using p(2) by simp
qed

lemma D0_reads_bound:
  "length (filter is_readl (events (snd (hsw_set_dsp_D0 k pmcs sdev))))
     \<le> length (filter is_readl (events sdev)) + 10"
proof -
  let ?p = "hsw_set_dsp_D0_poll k pmcs 10 0 (D0_request k sdev)"
  have b: "length (filter is_readl (events (snd ?p))) \<le> length (filter is_readl (events sdev)) + 10"
    using hsw_set_dsp_D0_poll_reads [of k pmcs 10 0 "D0_request k sdev"]
    by (simp add: events_D0_request filter_readl_prologue)
  show ?thesis
  proof (cases "fst ?p")
    case True
    then have d: "hsw_set_dsp_D0 k pmcs sdev = hsw_set_dsp_D0_finish k (snd ?p)"
      by (simp add: hsw_set_dsp_D0_unfold)
    obtain pre where pre: "events (snd (hsw_set_dsp_D0_finish k (snd ?p))) = events (snd ?p) @ pre @
        [Dsp_write HSW_DSP_BAR (SHIM_IPCX k) 0, Dsp_write HSW_DSP_BAR (SHIM_IPCD k) 0,
         Dsp_write HSW_DSP_BAR 0x80 0x6, Dsp_write HSW_DSP_BAR 0xe0 0x300a]"
       "filter is_readl pre = []"
      using D0_finish_result(2) [of k "snd ?p"] by blast
    show ?thesis unfolding d pre(1) using b pre(2) by simp
  next
    case False
    then have d: "hsw_set_dsp_D0 k pmcs sdev = (- ENODEV, snd ?p)"
      by (simp add: hsw_set_dsp_D0_unfold)
    show ?thesis unfolding d using b by simp
  qed
qed

text \<open>
  Claim C4.  \<open>hsw_set_dsp_D0\<close> reads the power-state field at most 10 times, whatever the
  device reports.  When none of the 10 reads finds the field clear it returns \<open>-ENODEV\<close>,
  having made exactly 10 reads, each followed by a sleep of 20 ms, and nothing after
  them.  When read \<open>n\<close> is the first to find the field clear, the \<open>n\<close> reads before it are
  each followed by a sleep of 20 ms, no further read is made after read \<open>n\<close> and the
  result is 0.
\<close>

theorem hsw_set_dsp_D0_poll_ten:
  "length (filter is_readl (events (snd (hsw_set_dsp_D0 k pmcs sdev))))
     \<le> length (filter is_readl (events sdev)) + 10
   \<and> ((\<forall>i<10. pmcs i AND PCI_PMCS_PS_MASK k \<noteq> 0) \<longrightarrow>
        fst (hsw_set_dsp_D0 k pmcs sdev) = - ENODEV
        \<and> events (snd (hsw_set_dsp_D0 k pmcs sdev)) =
            events sdev @ D0_prologue k @ concat (map (poll_round k pmcs) [0..<10]))
   \<and> (\<forall>n<10. pmcs n AND PCI_PMCS_PS_MASK k = 0
         \<and> (\<forall>i<n. pmcs i AND PCI_PMCS_PS_MASK k \<noteq> 0) \<longrightarrow>
        fst (hsw_set_dsp_D0 k pmcs sdev) = 0
        \<and> (\<exists>rest. events (snd (hsw_set_dsp_D0 k pmcs sdev)) =
              events sdev @ D0_prologue k @ concat (map (poll_round k pmcs) [0..<n])
                @ [Readl HSW_PCI_BAR (PCI_PMCS k) (pmcs n)] @ rest
              \<and> filter is_readl rest = []))"
  using D0_reads_bound [of k pmcs sdev] D0_never_ready [of pmcs k sdev]
    D0_first_ready(1,2) [of _ pmcs k sdev]
  by blast


lemma example_pmcs_consts:
  "PCI_PMCS_PS_MASK hsw_example_consts = 3" "PCI_PMCS hsw_example_consts = 0x84"
  by (simp_all add: hsw_example_consts_def)

theorem hsw_set_dsp_D0_poll_ten_witness:
  "fst (hsw_set_dsp_D0 hsw_example_consts (\<lambda>i. 3) hsw_example_dev) = - ENODEV
   \<and> events (snd (hsw_set_dsp_D0 hsw_example_consts (\<lambda>i. 3) hsw_example_dev)) =
       D0_prologue hsw_example_consts
       @ concat (replicate 10 [Readl HSW_PCI_BAR 0x84 3, Msleep 20])
   \<and> fst (hsw_set_dsp_D0 hsw_example_consts (\<lambda>i. if i < 2 then 3 else 0) hsw_example_dev) = 0
   \<and> (\<exists>rest. events (snd (hsw_set_dsp_D0 hsw_example_consts (\<lambda>i. if i < 2 then 3 else 0)
               hsw_example_dev)) =
         D0_prologue hsw_example_consts
         @ [Readl HSW_PCI_BAR 0x84 3, Msleep 20, Readl HSW_PCI_BAR 0x84 3, Msleep 20,
            Readl HSW_PCI_BAR 0x84 0] @ rest
         \<and> filter is_readl rest = [])"
proof -
  let ?k = hsw_example_consts
  have ev: "events hsw_example_dev = []" by (simp add: hsw_example_dev_def)
  have never: "\<forall>i<10. (\<lambda>i. 3 :: u32) i AND PCI_PMCS_PS_MASK ?k \<noteq> 0"
    by (simp add: example_pmcs_consts)
  have pr: "poll_round ?k (\<lambda>i. 3) = (\<lambda>i. [Readl HSW_PCI_BAR 0x84 3, Msleep 20])"
    by (rule ext) (simp add: poll_round_def example_pmcs_consts)
  have rounds: "concat (map (poll_round ?k (\<lambda>i. 3)) [0..<10])
      = concat (replicate 10 [Readl HSW_PCI_BAR 0x84 3, Msleep 20])"
    by (simp only: pr map_replicate_const length_upt diff_zero)
  let ?p = "\<lambda>i :: nat. if i < 2 then 3 else (0 :: u32)"
  have ready: "(2 :: nat) < 10 \<and> ?p 2 AND PCI_PMCS_PS_MASK ?k = 0
      \<and> (\<forall>i<2. ?p i AND PCI_PMCS_PS_MASK ?k \<noteq> 0)"
    by (simp add: example_pmcs_consts)
  have two: "concat (map (poll_round ?k ?p) [0..<2])
      = [Readl HSW_PCI_BAR 0x84 3, Msleep 20, Readl HSW_PCI_BAR 0x84 3, Msleep 20]"
    by (simp add: poll_round_def example_pmcs_consts numeral_2_eq_2)
  note t1 = hsw_set_dsp_D0_poll_ten [of ?k "\<lambda>i. 3" hsw_example_dev]
  note t2 = hsw_set_dsp_D0_poll_ten [of ?k ?p hsw_example_dev]
  from t1 never have a: "fst (hsw_set_dsp_D0 ?k (\<lambda>i. 3) hsw_example_dev) = - ENODEV"
    "events (snd (hsw_set_dsp_D0 ?k (\<lambda>i. 3) hsw_example_dev)) =
       events hsw_example_dev @ D0_prologue ?k @ concat (map (poll_round ?k (\<lambda>i. 3)) [0..<10])"
    by blast+
  from t2 ready have b: "fst (hsw_set_dsp_D0 ?k ?p hsw_example_dev) = 0"
    "\<exists>rest. events (snd (hsw_set_dsp_D0 ?k ?p hsw_example_dev)) =
       events hsw_example_dev @ D0_prologue ?k @ concat (map (poll_round ?k ?p) [0..<2])
         @ [Readl HSW_PCI_BAR (PCI_PMCS ?k) (?p 2)] @ rest
       \<and> filter is_readl rest = []"
    by blast+
  from a b show ?thesis
    unfolding ev rounds two by (simp add: example_pmcs_consts)
qed


text \<open>
  Claim C9, as amended.  When the poll finds the field clear, \<open>hsw_set_dsp_D0\<close> returns 0 and
  its last four register writes are, in this order, 0 to \<^verbatim>\<open>SHIM_IPCX\<close>, 0 to \<^verbatim>\<open>SHIM_IPCD\<close>,
  the value \<open>0x6\<close> to offset \<open>0x80\<close> and the value \<open>0x300a\<close> to offset \<open>0xe0\<close> of the DSP
  region; the two offsets hold these values afterwards.
\<close>

theorem hsw_set_dsp_D0_final_writes:
  assumes "n < 10" and "pmcs n AND PCI_PMCS_PS_MASK k = 0"
  shows "fst (hsw_set_dsp_D0 k pmcs sdev) = 0
    \<and> (\<exists>pre. events (snd (hsw_set_dsp_D0 k pmcs sdev)) = pre @
          [Dsp_write HSW_DSP_BAR (SHIM_IPCX k) 0, Dsp_write HSW_DSP_BAR (SHIM_IPCD k) 0,
           Dsp_write HSW_DSP_BAR 0x80 0x6, Dsp_write HSW_DSP_BAR 0xe0 0x300a])
    \<and> snd_sof_dsp_read (snd (hsw_set_dsp_D0 k pmcs sdev)) HSW_DSP_BAR 0x80 = 0x6
    \<and> snd_sof_dsp_read (snd (hsw_set_dsp_D0 k pmcs sdev)) HSW_DSP_BAR 0xe0 = 0x300a"
proof -
  define m where "m = (LEAST i. pmcs i AND PCI_PMCS_PS_MASK k = 0)"
  have m0: "pmcs m AND PCI_PMCS_PS_MASK k = 0"
    unfolding m_def using assms(2) by (rule LeastI)
  have "m \<le> n" unfolding m_def using assms(2) by (rule Least_le)
  then have m10: "m < 10" using assms(1) by simp
  have before: "pmcs i AND PCI_PMCS_PS_MASK k \<noteq> 0" if "i < m" for i
    using that not_less_Least unfolding m_def by blast
  note r = D0_first_ready [where n = m and pmcs = pmcs and k = k and sdev = sdev,
      OF m10 m0 before]
  from r(1) r(3) r(4) r(5) show ?thesis by blast
qed

theorem hsw_set_dsp_D0_final_writes_witness:
  "fst (hsw_set_dsp_D0 hsw_example_consts (\<lambda>i. 0) hsw_example_dev) = 0
   \<and> (\<exists>pre. events (snd (hsw_set_dsp_D0 hsw_example_consts (\<lambda>i. 0) hsw_example_dev)) = pre @
         [Dsp_write HSW_DSP_BAR 0xE7038 0, Dsp_write HSW_DSP_BAR 0xE7040 0,
          Dsp_write HSW_DSP_BAR 0x80 0x6, Dsp_write HSW_DSP_BAR 0xe0 0x300a])
   \<and> snd_sof_dsp_read (snd (hsw_set_dsp_D0 hsw_example_consts (\<lambda>i. 0) hsw_example_dev))
        HSW_DSP_BAR 0x80 = 0x6
   \<and> snd_sof_dsp_read (snd (hsw_set_dsp_D0 hsw_example_consts (\<lambda>i. 0) hsw_example_dev))
        HSW_DSP_BAR 0xe0 = 0x300a"
proof -
  have c: "SHIM_IPCX hsw_example_consts = 0xE7038" "SHIM_IPCD hsw_example_consts = 0xE7040"
    by (simp_all add: hsw_example_consts_def)
  have h: "(\<lambda>i :: nat. 0 :: u32) 0 AND PCI_PMCS_PS_MASK hsw_example_consts = 0" by simp
  from hsw_set_dsp_D0_final_writes [of 0 "\<lambda>i. 0" hsw_example_consts hsw_example_dev, OF _ h]
  show ?thesis unfolding c by simp
qed


text \<open>
  The claim as it stands has the last two writes store zero.  On the example device, with
  the field clear at the first read, the log does not end in two doorbell writes followed
  by two writes of zero, and the registers at \<open>0x80\<close> and \<open>0xe0\<close> are not zero afterwards.
\<close>

theorem hsw_set_dsp_D0_scratch_not_zeroed:
  "fst (hsw_set_dsp_D0 hsw_example_consts (\<lambda>i. 0) hsw_example_dev) = 0
   \<and> \<not> (\<exists>pre r1 r2.
         events (snd (hsw_set_dsp_D0 hsw_example_consts (\<lambda>i. 0) hsw_example_dev)) = pre @
           [Dsp_write HSW_DSP_BAR 0xE7038 0, Dsp_write HSW_DSP_BAR 0xE7040 0,
            Dsp_write HSW_DSP_BAR r1 0, Dsp_write HSW_DSP_BAR r2 0])
   \<and> snd_sof_dsp_read (snd (hsw_set_dsp_D0 hsw_example_consts (\<lambda>i. 0) hsw_example_dev))
        HSW_DSP_BAR 0x80 \<noteq> 0
   \<and> snd_sof_dsp_read (snd (hsw_set_dsp_D0 hsw_example_consts (\<lambda>i. 0) hsw_example_dev))
        HSW_DSP_BAR 0xe0 \<noteq> 0"
proof -
  let ?r = "hsw_set_dsp_D0 hsw_example_consts (\<lambda>i. 0) hsw_example_dev"
  have h: "(\<lambda>i :: nat. 0 :: u32) 0 AND PCI_PMCS_PS_MASK hsw_example_consts = 0" by simp
  note r = D0_first_ready [where n = 0 and pmcs = "\<lambda>i. 0" and k = hsw_example_consts
      and sdev = hsw_example_dev, OF _ h]
  have 1: "fst ?r = 0" using r(1) by simp
  obtain pre where pre: "events (snd ?r) = pre @
      [Dsp_write HSW_DSP_BAR (SHIM_IPCX hsw_example_consts) 0,
       Dsp_write HSW_DSP_BAR (SHIM_IPCD hsw_example_consts) 0,
       Dsp_write HSW_DSP_BAR 0x80 0x6, Dsp_write HSW_DSP_BAR 0xe0 0x300a]"
    using r(3) by auto
  have 2: "\<not> (\<exists>pre r1 r2. events (snd ?r) = pre @
           [Dsp_write HSW_DSP_BAR 0xE7038 0, Dsp_write HSW_DSP_BAR 0xE7040 0,
            Dsp_write HSW_DSP_BAR r1 0, Dsp_write HSW_DSP_BAR r2 0])"
  proof
    assume "\<exists>pre r1 r2. events (snd ?r) = pre @
           [Dsp_write HSW_DSP_BAR 0xE7038 0, Dsp_write HSW_DSP_BAR 0xE7040 0,
            Dsp_write HSW_DSP_BAR r1 0, Dsp_write HSW_DSP_BAR r2 0]"
    then obtain p r1 r2 where "events (snd ?r) = p @
           [Dsp_write HSW_DSP_BAR 0xE7038 0, Dsp_write HSW_DSP_BAR 0xE7040 0,
            Dsp_write HSW_DSP_BAR r1 0, Dsp_write HSW_DSP_BAR r2 0]" by blast
    then have "last (events (snd ?r)) = Dsp_write HSW_DSP_BAR r2 0" by simp
    moreover have "last (events (snd ?r)) = Dsp_write HSW_DSP_BAR 0xe0 0x300a"
      unfolding pre by simp
    ultimately show False by simp
  qed
  have 3: "snd_sof_dsp_read (snd ?r) HSW_DSP_BAR 0x80 \<noteq> 0"
    "snd_sof_dsp_read (snd ?r) HSW_DSP_BAR 0xe0 \<noteq> 0"
    using r(4) r(5) by simp_all
  from 1 2 3 show ?thesis by blast
qed

section \<open>Interrupt thread\<close>

lemma read_emit: "snd_sof_dsp_read (emit e sdev) b offset = snd_sof_dsp_read sdev b offset"
  by (simp add: snd_sof_dsp_read_def hsw_read_emit)

lemma events_collaborators:
  "events (snd_sof_ipc_reply sdev hdr) = events sdev @ [Ipc_reply hdr]"
  "events (snd_sof_dsp_panic sdev offset) = events sdev @ [Dsp_panic offset]"
  "events (snd_sof_ipc_msgs_rx sdev) = events sdev @ [Ipc_msgs_rx]"
  "events (dev_err sdev msg) = events sdev @ [Dev_err msg]"
  "events (snd_sof_debugfs_create_item sdev addr sz name) =
     events sdev @ [Debugfs_create_item addr sz name]"
  by (simp_all add: snd_sof_ipc_reply_def snd_sof_dsp_panic_def snd_sof_ipc_msgs_rx_def
      dev_err_def snd_sof_debugfs_create_item_def emit_fields)

text \<open>
  The first half of \<open>hsw_irq_thread\<close>, the handling of a reply, does not change what the
  thread then reads from \<^verbatim>\<open>SHIM_IPCD\<close>, the register being apart from \<^verbatim>\<open>SHIM_IPCX\<close> and
  \<^verbatim>\<open>SHIM_IMRX\<close>.
\<close>

lemma hsw_irq_thread_events:
  assumes "unat (SHIM_IPCX k) + 4 \<le> unat (SHIM_IPCD k)
             \<or> unat (SHIM_IPCD k) + 4 \<le> unat (SHIM_IPCX k)"
    and "unat (SHIM_IMRX k) + 4 \<le> unat (SHIM_IPCD k)
             \<or> unat (SHIM_IPCD k) + 4 \<le> unat (SHIM_IMRX k)"
  shows "fst (hsw_irq_thread k sdev) = IRQ_HANDLED"
    and "events (snd (hsw_irq_thread k sdev)) =
      (let ipcx = snd_sof_dsp_read sdev HSW_DSP_BAR (SHIM_IPCX k);
           ipcd = snd_sof_dsp_read sdev HSW_DSP_BAR (SHIM_IPCD k)
       in events sdev
          @ (if ipcx AND SHIM_IPCX_DONE k \<noteq> 0
             then [Ipc_reply (get_le32 (hsw_mailbox_read sdev (box_offset (host_box sdev)) 4) 0),
                   Update_bits HSW_DSP_BAR (SHIM_IPCX k) (SHIM_IPCX_DONE k) 0,
                   Update_bits HSW_DSP_BAR (SHIM_IMRX k) (SHIM_IMRX_DONE k) 0]
             else [])
          @ (if ipcd AND SHIM_IPCD_BUSY k \<noteq> 0
             then (if ipcd AND SOF_IPC_PANIC_MAGIC_MASK k = SOF_IPC_PANIC_MAGIC k
                   then [Dsp_panic (HSW_PANIC_OFFSET ipcx + MBOX_OFFSET)]
                   else [Ipc_msgs_rx])
             else []))"
proof -
  show "fst (hsw_irq_thread k sdev) = IRQ_HANDLED"
    by (simp add: hsw_irq_thread_def Let_def)
  define ipcx where "ipcx = snd_sof_dsp_read sdev HSW_DSP_BAR (SHIM_IPCX k)"
  define hdr where "hdr = get_le32 (hsw_mailbox_read sdev (box_offset (host_box sdev)) 4) 0"
  define mid where "mid = snd_sof_dsp_update_bits_unlocked
      (snd_sof_dsp_update_bits_unlocked (snd_sof_ipc_reply sdev hdr)
         HSW_DSP_BAR (SHIM_IPCX k) (SHIM_IPCX_DONE k) 0)
      HSW_DSP_BAR (SHIM_IMRX k) (SHIM_IMRX_DONE k) 0"
  have mid_ipcd: "snd_sof_dsp_read mid HSW_DSP_BAR (SHIM_IPCD k)
      = snd_sof_dsp_read sdev HSW_DSP_BAR (SHIM_IPCD k)"
    using assms
    by (simp add: mid_def read_update_bits_other snd_sof_ipc_reply_def read_emit)
  have mid_events: "events mid = events sdev @ [Ipc_reply hdr,
      Update_bits HSW_DSP_BAR (SHIM_IPCX k) (SHIM_IPCX_DONE k) 0,
      Update_bits HSW_DSP_BAR (SHIM_IMRX k) (SHIM_IMRX_DONE k) 0]"
    by (simp add: mid_def events_update_bits events_collaborators)
  show "events (snd (hsw_irq_thread k sdev)) =
      (let ipcx = snd_sof_dsp_read sdev HSW_DSP_BAR (SHIM_IPCX k);
           ipcd = snd_sof_dsp_read sdev HSW_DSP_BAR (SHIM_IPCD k)
       in events sdev
          @ (if ipcx AND SHIM_IPCX_DONE k \<noteq> 0
             then [Ipc_reply (get_le32 (hsw_mailbox_read sdev (box_offset (host_box sdev)) 4) 0),
                   Update_bits HSW_DSP_BAR (SHIM_IPCX k) (SHIM_IPCX_DONE k) 0,
                   Update_bits HSW_DSP_BAR (SHIM_IMRX k) (SHIM_IMRX_DONE k) 0]
             else [])
          @ (if ipcd AND SHIM_IPCD_BUSY k \<noteq> 0
             then (if ipcd AND SOF_IPC_PANIC_MAGIC_MASK k = SOF_IPC_PANIC_MAGIC k
                   then [Dsp_panic (HSW_PANIC_OFFSET ipcx + MBOX_OFFSET)]
                   else [Ipc_msgs_rx])
             else []))"
  proof (cases "ipcx AND SHIM_IPCX_DONE k \<noteq> 0")
    case True
    then have "snd (hsw_irq_thread k sdev) =
        (let ipcd = snd_sof_dsp_read mid HSW_DSP_BAR (SHIM_IPCD k)
         in if ipcd AND SHIM_IPCD_BUSY k \<noteq> 0
            then (if ipcd AND SOF_IPC_PANIC_MAGIC_MASK k = SOF_IPC_PANIC_MAGIC k
                  then snd_sof_dsp_panic mid (HSW_PANIC_OFFSET ipcx + MBOX_OFFSET)
                  else snd_sof_ipc_msgs_rx mid)
            else mid)"
      by (simp add: hsw_irq_thread_def Let_def ipcx_def mid_def hdr_def)
    with True show ?thesis
      by (simp add: Let_def mid_ipcd mid_events events_collaborators
          ipcx_def [symmetric] hdr_def [symmetric])
  next
    case False
    then have "snd (hsw_irq_thread k sdev) =
        (let ipcd = snd_sof_dsp_read sdev HSW_DSP_BAR (SHIM_IPCD k)
         in if ipcd AND SHIM_IPCD_BUSY k \<noteq> 0
            then (if ipcd AND SOF_IPC_PANIC_MAGIC_MASK k = SOF_IPC_PANIC_MAGIC k
                  then snd_sof_dsp_panic sdev (HSW_PANIC_OFFSET ipcx + MBOX_OFFSET)
                  else snd_sof_ipc_msgs_rx sdev)
            else sdev)"
      by (simp add: hsw_irq_thread_def Let_def ipcx_def)
    with False show ?thesis
      by (simp add: Let_def events_collaborators ipcx_def [symmetric])
  qed
qed

text \<open>
  Claim C5.  When the thread finds BUSY set in \<^verbatim>\<open>SHIM_IPCD\<close> and the register equal to the
  panic magic under the magic mask, whatever its other bits are, it calls
  \<open>snd_sof_dsp_panic\<close>, with the offset taken from \<^verbatim>\<open>SHIM_IPCX\<close>, as the last thing it does,
  and it does not call \<open>snd_sof_ipc_msgs_rx\<close>; it returns \<open>IRQ_HANDLED\<close>.  \<^verbatim>\<open>SHIM_IPCD\<close> is
  taken to be a register of its own, apart from \<^verbatim>\<open>SHIM_IPCX\<close> and \<^verbatim>\<open>SHIM_IMRX\<close>, which the
  thread may write before it reads \<^verbatim>\<open>SHIM_IPCD\<close>.
\<close>

theorem hsw_irq_thread_panic:
  assumes "unat (SHIM_IPCX k) + 4 \<le> unat (SHIM_IPCD k)
             \<or> unat (SHIM_IPCD k) + 4 \<le> unat (SHIM_IPCX k)"
    and "unat (SHIM_IMRX k) + 4 \<le> unat (SHIM_IPCD k)
             \<or> unat (SHIM_IPCD k) + 4 \<le> unat (SHIM_IMRX k)"
    and "snd_sof_dsp_read sdev HSW_DSP_BAR (SHIM_IPCD k) AND SHIM_IPCD_BUSY k \<noteq> 0"
    and "snd_sof_dsp_read sdev HSW_DSP_BAR (SHIM_IPCD k) AND SOF_IPC_PANIC_MAGIC_MASK k
           = SOF_IPC_PANIC_MAGIC k"
  shows "fst (hsw_irq_thread k sdev) = IRQ_HANDLED
    \<and> (\<exists>reply. events (snd (hsw_irq_thread k sdev)) = events sdev @ reply @
          [Dsp_panic (HSW_PANIC_OFFSET (snd_sof_dsp_read sdev HSW_DSP_BAR (SHIM_IPCX k))
             + MBOX_OFFSET)]
        \<and> Ipc_msgs_rx \<notin> set reply)"
proof -
  show ?thesis
    unfolding hsw_irq_thread_events [OF assms(1,2)] Let_def
    using assms(3,4) by simp
qed

theorem hsw_irq_thread_panic_witness:
  "snd_sof_dsp_read (hsw_write hsw_example_dev HSW_DSP_BAR 0xE7040 0x8dead123)
       HSW_DSP_BAR (SHIM_IPCD hsw_example_consts) = 0x8dead123
   \<and> (0x8dead123 :: u32) AND SHIM_IPCD_BUSY hsw_example_consts \<noteq> 0
   \<and> (0x8dead123 :: u32) AND SOF_IPC_PANIC_MAGIC_MASK hsw_example_consts
         = SOF_IPC_PANIC_MAGIC hsw_example_consts
   \<and> fst (hsw_irq_thread hsw_example_consts
            (hsw_write hsw_example_dev HSW_DSP_BAR 0xE7040 0x8dead123)) = IRQ_HANDLED
   \<and> (\<exists>reply. events (snd (hsw_irq_thread hsw_example_consts
            (hsw_write hsw_example_dev HSW_DSP_BAR 0xE7040 0x8dead123))) =
          reply @ [Dsp_panic 0x7E000]
        \<and> Ipc_msgs_rx \<notin> set reply)"
proof -
  let ?k = hsw_example_consts
  let ?d = "hsw_write hsw_example_dev HSW_DSP_BAR 0xE7040 0x8dead123"
  have c: "SHIM_IPCD ?k = 0xE7040" "SHIM_IPCX ?k = 0xE7038" "SHIM_IMRX ?k = 0xE7028"
    "SHIM_IPCD_BUSY ?k = 0x80000000" "SOF_IPC_PANIC_MAGIC ?k = 0x0dead000"
    "SOF_IPC_PANIC_MAGIC_MASK ?k = 0x0ffff000"
    by (simp_all add: hsw_example_consts_def)
  have ipcd: "snd_sof_dsp_read ?d HSW_DSP_BAR (SHIM_IPCD ?k) = 0x8dead123"
    unfolding c using hsw_read_write_same [of hsw_example_dev HSW_DSP_BAR "0xE7040" "0x8dead123"]
    by (simp add: snd_sof_dsp_read_def)
  have "hsw_read ?d HSW_DSP_BAR 0xE7038 = hsw_read hsw_example_dev HSW_DSP_BAR 0xE7038"
    by (rule hsw_read_write_other) simp
  then have ipcx: "snd_sof_dsp_read ?d HSW_DSP_BAR (SHIM_IPCX ?k) = 0"
    unfolding c by (simp add: snd_sof_dsp_read_def hsw_read_def readl_def hsw_example_dev_def)
  have ev: "events ?d = []" by (simp add: hsw_write_fields hsw_example_dev_def)
  have h1: "unat (SHIM_IPCX ?k) + 4 \<le> unat (SHIM_IPCD ?k)
      \<or> unat (SHIM_IPCD ?k) + 4 \<le> unat (SHIM_IPCX ?k)"
    and h2: "unat (SHIM_IMRX ?k) + 4 \<le> unat (SHIM_IPCD ?k)
      \<or> unat (SHIM_IPCD ?k) + 4 \<le> unat (SHIM_IMRX ?k)"
    by (simp_all add: c)
  have h3: "snd_sof_dsp_read ?d HSW_DSP_BAR (SHIM_IPCD ?k) AND SHIM_IPCD_BUSY ?k \<noteq> 0"
    and h4: "snd_sof_dsp_read ?d HSW_DSP_BAR (SHIM_IPCD ?k) AND SOF_IPC_PANIC_MAGIC_MASK ?k
      = SOF_IPC_PANIC_MAGIC ?k"
    unfolding ipcd by (simp_all add: c)
  from hsw_irq_thread_panic [OF h1 h2 h3 h4] h3 h4 ipcd
  show ?thesis
    unfolding ipcx ev by (simp add: HSW_PANIC_OFFSET_def MBOX_OFFSET_def)
qed

section \<open>Window discovery\<close>

lemma boxes_debugfs:
  "dsp_box (snd_sof_debugfs_create_item sdev addr sz name) = dsp_box sdev"
  "host_box (snd_sof_debugfs_create_item sdev addr sz name) = host_box sdev"
  by (simp_all add: snd_sof_debugfs_create_item_def emit_fields)

lemma boxes_dev_err:
  "dsp_box (dev_err sdev msg) = dsp_box sdev"
  "host_box (dev_err sdev msg) = host_box sdev"
  by (simp_all add: dev_err_def emit_fields)

lemma hsw_get_windows_loop_Inl:
  "hsw_get_windows_loop es w sdev = Inl sdev' \<Longrightarrow>
     dsp_box sdev' = dsp_box sdev \<and> host_box sdev' = host_box sdev
     \<and> events sdev' \<noteq> []
     \<and> last (events sdev') = Dev_err ''error: get illegal window info''
     \<and> \<not> list_all recognised (map elem_type es)"
proof (induction es arbitrary: w sdev)
  case Nil
  then show ?case by simp
next
  case (Cons a es)
  show ?case
  proof (cases "elem_type a")
    case (SOF_IPC_REGION_OTHER t)
    with Cons.prems show ?thesis
      by (auto simp add: boxes_dev_err events_collaborators)
  qed (use Cons.prems in \<open>auto simp add: Let_def boxes_debugfs dest!: Cons.IH\<close>)
qed

lemma hsw_get_windows_loop_Inr:
  "hsw_get_windows_loop es w sdev = Inr (w', sdev') \<Longrightarrow>
     inbox_size w' =
       (case last_window SOF_IPC_REGION_UPBOX es of
          None \<Rightarrow> inbox_size w | Some e \<Rightarrow> elem_size e)
     \<and> inbox_offset w' =
       (case last_window SOF_IPC_REGION_UPBOX es of
          None \<Rightarrow> inbox_offset w | Some e \<Rightarrow> elem_offset e + MBOX_OFFSET)
     \<and> outbox_size w' =
       (case last_window SOF_IPC_REGION_DOWNBOX es of
          None \<Rightarrow> outbox_size w | Some e \<Rightarrow> elem_size e)
     \<and> outbox_offset w' =
       (case last_window SOF_IPC_REGION_DOWNBOX es of
          None \<Rightarrow> outbox_offset w | Some e \<Rightarrow> elem_offset e + MBOX_OFFSET)
     \<and> dsp_box sdev' = dsp_box sdev \<and> host_box sdev' = host_box sdev
     \<and> list_all recognised (map elem_type es)"
proof (induction es arbitrary: w sdev)
  case Nil
  then show ?case by simp
next
  case (Cons a es)
  show ?case
    using Cons.prems
    by (cases "elem_type a")
      (auto simp add: Let_def boxes_debugfs dest!: Cons.IH split: option.splits)
qed


text \<open>
  Claim C6, as amended.  For a device with a window table: when the table declares a zero
  size for the inbound or for the outbound mailbox (or declares none), \<open>hsw_get_windows\<close>
  ends with an error message and leaves both live boxes as they were.  When both declared
  sizes are non-zero and every element of the table has one of the seven recognised
  types, the live DSP box and host box have the declared offsets plus \<open>MBOX_OFFSET\<close> and
  the declared sizes.  When some element has an unrecognised type, the function ends with
  the error message of the default arm and leaves both live boxes as they were.
\<close>

theorem hsw_get_windows_mailbox:
  assumes "info_window sdev = Some tbl"
  shows
    "(declared_size SOF_IPC_REGION_UPBOX tbl = 0 \<or> declared_size SOF_IPC_REGION_DOWNBOX tbl = 0
        \<longrightarrow>
        dsp_box (hsw_get_windows sdev) = dsp_box sdev
        \<and> host_box (hsw_get_windows sdev) = host_box sdev
        \<and> events (hsw_get_windows sdev) \<noteq> []
        \<and> (\<exists>msg. last (events (hsw_get_windows sdev)) = Dev_err msg))
     \<and> (declared_size SOF_IPC_REGION_UPBOX tbl \<noteq> 0
        \<and> declared_size SOF_IPC_REGION_DOWNBOX tbl \<noteq> 0
        \<and> list_all recognised (map elem_type tbl) \<longrightarrow>
        dsp_box (hsw_get_windows sdev) =
          \<lparr>box_offset = declared_offset SOF_IPC_REGION_UPBOX tbl + MBOX_OFFSET,
           box_size = declared_size SOF_IPC_REGION_UPBOX tbl\<rparr>
        \<and> host_box (hsw_get_windows sdev) =
          \<lparr>box_offset = declared_offset SOF_IPC_REGION_DOWNBOX tbl + MBOX_OFFSET,
           box_size = declared_size SOF_IPC_REGION_DOWNBOX tbl\<rparr>)
     \<and> (\<not> list_all recognised (map elem_type tbl) \<longrightarrow>
        dsp_box (hsw_get_windows sdev) = dsp_box sdev
        \<and> host_box (hsw_get_windows sdev) = host_box sdev
        \<and> events (hsw_get_windows sdev) \<noteq> []
        \<and> last (events (hsw_get_windows sdev)) = Dev_err ''error: get illegal window info'')"
proof -
  define w0 where "w0 = \<lparr>outbox_offset = 0, stream_offset = 0, inbox_offset = 0,
     outbox_size = 0, stream_size = 0, inbox_size = (0 :: u32)\<rparr>"
  show ?thesis
  proof (cases "hsw_get_windows_loop tbl w0 sdev")
    case (Inl sdev')
    then have res: "hsw_get_windows sdev = sdev'"
      using assms by (simp add: hsw_get_windows_def w0_def)
    from hsw_get_windows_loop_Inl [OF Inl] show ?thesis
      unfolding res by simp
  next
    case (Inr p)
    then obtain w' sdev' where p: "hsw_get_windows_loop tbl w0 sdev = Inr (w', sdev')"
      by (cases p) simp
    note l = hsw_get_windows_loop_Inr [OF p]
    have sizes: "inbox_size w' = declared_size SOF_IPC_REGION_UPBOX tbl"
      "outbox_size w' = declared_size SOF_IPC_REGION_DOWNBOX tbl"
      using l by (simp_all add: declared_size_def w0_def split: option.splits)
    have offs: "declared_size SOF_IPC_REGION_UPBOX tbl \<noteq> 0 \<Longrightarrow>
        inbox_offset w' = declared_offset SOF_IPC_REGION_UPBOX tbl + MBOX_OFFSET"
      "declared_size SOF_IPC_REGION_DOWNBOX tbl \<noteq> 0 \<Longrightarrow>
        outbox_offset w' = declared_offset SOF_IPC_REGION_DOWNBOX tbl + MBOX_OFFSET"
      using l by (simp_all add: declared_size_def declared_offset_def split: option.splits)
    have rec: "list_all recognised (map elem_type tbl)" using l by simp
    show ?thesis
    proof (cases "outbox_size w' = 0 \<or> inbox_size w' = 0")
      case True
      then have res: "hsw_get_windows sdev = dev_err sdev' ''error: get illegal mailbox window''"
        using assms p by (simp add: hsw_get_windows_def w0_def)
      from True sizes rec l show ?thesis
        unfolding res by (auto simp add: boxes_dev_err events_collaborators)
    next
      case False
      then have res: "hsw_get_windows sdev =
          (snd_sof_dsp_mailbox_init sdev' (inbox_offset w') (inbox_size w')
             (outbox_offset w') (outbox_size w'))
          \<lparr>stream_box := \<lparr>box_offset = stream_offset w', box_size = stream_size w'\<rparr>\<rparr>"
        using assms p by (simp add: hsw_get_windows_def w0_def Let_def)
      from False sizes rec offs show ?thesis
        unfolding res by (simp add: snd_sof_dsp_mailbox_init_def)
    qed
  qed
qed

lemma example_windows_declared:
  "declared_size SOF_IPC_REGION_UPBOX example_windows = 0x400"
  "declared_size SOF_IPC_REGION_DOWNBOX example_windows = 0x400"
  "declared_offset SOF_IPC_REGION_UPBOX example_windows = 0x1000"
  "declared_offset SOF_IPC_REGION_DOWNBOX example_windows = 0"
  "declared_size SOF_IPC_REGION_UPBOX
     (example_windows @ [\<lparr>elem_type = SOF_IPC_REGION_OTHER 99, elem_offset = 0, elem_size = 0\<rparr>])
     = 0x400"
  "declared_size SOF_IPC_REGION_DOWNBOX
     (example_windows @ [\<lparr>elem_type = SOF_IPC_REGION_OTHER 99, elem_offset = 0, elem_size = 0\<rparr>])
     = 0x400"
  "declared_offset SOF_IPC_REGION_UPBOX
     (example_windows @ [\<lparr>elem_type = SOF_IPC_REGION_OTHER 99, elem_offset = 0, elem_size = 0\<rparr>])
     = 0x1000"
  "declared_size SOF_IPC_REGION_UPBOX (tl example_windows) = 0"
  by (simp_all add: declared_size_def declared_offset_def example_windows_def)

theorem hsw_get_windows_mailbox_witness:
  "dsp_box (hsw_get_windows (hsw_example_dev\<lparr>info_window := Some example_windows\<rparr>)) =
      \<lparr>box_offset = 0x7F000, box_size = 0x400\<rparr>
   \<and> host_box (hsw_get_windows (hsw_example_dev\<lparr>info_window := Some example_windows\<rparr>)) =
      \<lparr>box_offset = 0x7E000, box_size = 0x400\<rparr>
   \<and> dsp_box (hsw_get_windows (hsw_example_dev\<lparr>info_window := Some (tl example_windows)\<rparr>)) =
      \<lparr>box_offset = 0x7E000, box_size = 0x1000\<rparr>
   \<and> host_box (hsw_get_windows (hsw_example_dev\<lparr>info_window := Some (tl example_windows)\<rparr>)) =
      \<lparr>box_offset = 0, box_size = 0\<rparr>
   \<and> (\<exists>msg. last (events (hsw_get_windows
          (hsw_example_dev\<lparr>info_window := Some (tl example_windows)\<rparr>))) = Dev_err msg)
   \<and> dsp_box (hsw_get_windows (hsw_example_dev\<lparr>info_window := Some
          [\<lparr>elem_type = SOF_IPC_REGION_OTHER 99, elem_offset = 0, elem_size = 0\<rparr>]\<rparr>)) =
      \<lparr>box_offset = 0x7E000, box_size = 0x1000\<rparr>
   \<and> last (events (hsw_get_windows (hsw_example_dev\<lparr>info_window := Some
          [\<lparr>elem_type = SOF_IPC_REGION_OTHER 99, elem_offset = 0, elem_size = 0\<rparr>]\<rparr>))) =
      Dev_err ''error: get illegal window info''"
proof -
  let ?d1 = "hsw_example_dev\<lparr>info_window := Some example_windows\<rparr>"
  let ?d2 = "hsw_example_dev\<lparr>info_window := Some (tl example_windows)\<rparr>"
  let ?t3 = "[\<lparr>elem_type = SOF_IPC_REGION_OTHER 99, elem_offset = 0, elem_size = 0\<rparr>]"
  let ?d3 = "hsw_example_dev\<lparr>info_window := Some ?t3\<rparr>"
  have i1: "info_window ?d1 = Some example_windows"
    and i2: "info_window ?d2 = Some (tl example_windows)"
    and i3: "info_window ?d3 = Some ?t3" by simp_all
  have r: "list_all recognised (map elem_type example_windows)"
    by (simp add: example_windows_def)
  have r3: "\<not> list_all recognised (map elem_type ?t3)" by simp
  have b: "dsp_box ?d2 = \<lparr>box_offset = 0x7E000, box_size = 0x1000\<rparr>"
    "host_box ?d2 = \<lparr>box_offset = 0, box_size = 0\<rparr>"
    "dsp_box ?d3 = \<lparr>box_offset = 0x7E000, box_size = 0x1000\<rparr>"
    by (simp_all add: hsw_example_dev_def MBOX_OFFSET_def MBOX_SIZE_def)
  from hsw_get_windows_mailbox [OF i3] r3 b(3)
  have 3: "dsp_box (hsw_get_windows ?d3) = \<lparr>box_offset = 0x7E000, box_size = 0x1000\<rparr>"
    "last (events (hsw_get_windows ?d3)) = Dev_err ''error: get illegal window info''"
    by simp_all
  from hsw_get_windows_mailbox [OF i1] hsw_get_windows_mailbox [OF i2] r b 3
  show ?thesis
    by (simp add: example_windows_declared MBOX_OFFSET_def)
qed

text \<open>
  The claim as it stands promises the live offsets whenever both sizes are non-zero.  The
  example table followed by one element of an unrecognised type declares both sizes
  non-zero, and the live boxes keep their bootstrap offsets.
\<close>

theorem hsw_get_windows_unrecognised_aborts:
  "declared_size SOF_IPC_REGION_UPBOX
     (example_windows @ [\<lparr>elem_type = SOF_IPC_REGION_OTHER 99, elem_offset = 0, elem_size = 0\<rparr>])
     \<noteq> 0
   \<and> declared_size SOF_IPC_REGION_DOWNBOX
     (example_windows @ [\<lparr>elem_type = SOF_IPC_REGION_OTHER 99, elem_offset = 0, elem_size = 0\<rparr>])
     \<noteq> 0
   \<and> box_offset (dsp_box (hsw_get_windows (hsw_example_dev\<lparr>info_window := Some
        (example_windows @
           [\<lparr>elem_type = SOF_IPC_REGION_OTHER 99, elem_offset = 0, elem_size = 0\<rparr>])\<rparr>)))
     \<noteq> declared_offset SOF_IPC_REGION_UPBOX
        (example_windows @
           [\<lparr>elem_type = SOF_IPC_REGION_OTHER 99, elem_offset = 0, elem_size = 0\<rparr>])
        + MBOX_OFFSET
   \<and> box_offset (host_box (hsw_get_windows (hsw_example_dev\<lparr>info_window := Some
        (example_windows @
           [\<lparr>elem_type = SOF_IPC_REGION_OTHER 99, elem_offset = 0, elem_size = 0\<rparr>])\<rparr>)))
     \<noteq> declared_offset SOF_IPC_REGION_DOWNBOX
        (example_windows @
           [\<lparr>elem_type = SOF_IPC_REGION_OTHER 99, elem_offset = 0, elem_size = 0\<rparr>])
        + MBOX_OFFSET"
  by (simp add: declared_size_def declared_offset_def example_windows_def hsw_get_windows_def
      hsw_example_dev_def Let_def boxes_dev_err boxes_debugfs MBOX_OFFSET_def)

section \<open>The reply\<close>

lemma hsw_mailbox_read_dev_err:
  "hsw_mailbox_read (dev_err sdev msg) offset n = hsw_mailbox_read sdev offset n"
  "host_box (dev_err sdev msg) = host_box sdev"
  by (simp_all add: hsw_mailbox_read_def dev_err_def emit_fields)

lemma get_le32_memcpy_fromio:
  "i + 4 \<le> n \<Longrightarrow> get_le32 (memcpy_fromio mem a n) i = readl mem (a + i)"
  by (simp add: get_le32_def memcpy_fromio_def readl_def add.assoc)

lemma length_hsw_mailbox_read: "length (hsw_mailbox_read sdev offset n) = n"
  by (simp add: hsw_mailbox_read_def memcpy_fromio_def)

lemma hsw_mailbox_read_nth:
  "i < n \<Longrightarrow> hsw_mailbox_read sdev offset n ! i = bar sdev (mailbox_bar sdev) (unat offset + i)"
  by (simp add: hsw_mailbox_read_def memcpy_fromio_def)

text \<open>The three results of \<open>hsw_get_reply\<close> in terms of the choice of size and result.\<close>

lemma hsw_get_reply_parts:
  "fst (hsw_get_reply k sdev msg) = fst (snd (hsw_get_reply_check k sdev msg (read_reply k sdev)))"
  "fst (snd (hsw_get_reply k sdev msg)) =
     (let sz = fst (hsw_get_reply_check k sdev msg (read_reply k sdev))
      in if msg_data msg \<noteq> None \<and> 0 < sz
         then msg\<lparr>reply_data := copy_to (reply_data msg)
                (hsw_mailbox_read sdev (box_offset (host_box sdev)) (unat sz))\<rparr>
         else msg)"
  "snd (snd (hsw_get_reply k sdev msg)) =
     snd (snd (hsw_get_reply_check k sdev msg (read_reply k sdev)))"
proof -
  have same: "hsw_mailbox_read (snd (snd (hsw_get_reply_check k sdev msg r)))
        (box_offset (host_box (snd (snd (hsw_get_reply_check k sdev msg r))))) n
      = hsw_mailbox_read sdev (box_offset (host_box sdev)) n" for r n
    by (simp add: hsw_get_reply_check_def hsw_mailbox_read_dev_err)
  show "fst (hsw_get_reply k sdev msg) = fst (snd (hsw_get_reply_check k sdev msg (read_reply k sdev)))"
    by (simp add: hsw_get_reply_def Let_def case_prod_beta)
  show "fst (snd (hsw_get_reply k sdev msg)) =
     (let sz = fst (hsw_get_reply_check k sdev msg (read_reply k sdev))
      in if msg_data msg \<noteq> None \<and> 0 < sz
         then msg\<lparr>reply_data := copy_to (reply_data msg)
                (hsw_mailbox_read sdev (box_offset (host_box sdev)) (unat sz))\<rparr>
         else msg)"
    by (simp add: hsw_get_reply_def Let_def case_prod_beta same)
  show "snd (snd (hsw_get_reply k sdev msg)) =
     snd (snd (hsw_get_reply_check k sdev msg (read_reply k sdev)))"
    by (simp add: hsw_get_reply_def Let_def case_prod_beta)
qed

lemma copy_to_Nil: "copy_to buf [] = buf"
  by (simp add: copy_to_def)

lemma hsw_mailbox_read_0: "hsw_mailbox_read sdev offset 0 = []"
  by (simp add: hsw_mailbox_read_def memcpy_fromio_def)

lemma example_reply:
  "read_reply hsw_example_consts (hsw_write hsw_example_dev HSW_DSP_BAR 0 4) =
     \<lparr>reply_hdr_size = 4, reply_error = 0\<rparr>"
proof -
  let ?d = "hsw_write hsw_example_dev HSW_DSP_BAR 0 4"
  have m: "bar ?d (mailbox_bar ?d) = writel 4 0 (\<lambda>a. 0)" "box_offset (host_box ?d) = 0"
    by (simp_all add: hsw_write_fields hsw_example_dev_def)
  have c: "sizeof_sof_ipc_reply hsw_example_consts = 12"
    "offsetof_reply_hdr_size hsw_example_consts = 0"
    "offsetof_reply_error hsw_example_consts = 8"
    by (simp_all add: hsw_example_consts_def)
  have "readl (writel 4 0 (\<lambda>a. 0)) 8 = readl (\<lambda>a. 0) 8"
    by (rule readl_writel_other) simp
  then have r8: "readl (writel 4 0 (\<lambda>a. 0)) 8 = 0" by (simp add: readl_def)
  show ?thesis
    by (simp add: read_reply_def hsw_mailbox_read_def m c get_le32_memcpy_fromio
        readl_writel_same r8)
qed

lemma example_box_bytes:
  "hsw_mailbox_read (hsw_write hsw_example_dev HSW_DSP_BAR 0 4)
     (box_offset (host_box (hsw_write hsw_example_dev HSW_DSP_BAR 0 4))) 8
   = [4, 0, 0, 0, 0, 0, 0, 0]"
  by (simp add: hsw_mailbox_read_def memcpy_fromio_def hsw_write_fields hsw_example_dev_def
      writel_def byte_of_def upt_conv_Cons)

text \<open>
  Claim C2, as amended.  For a reply whose error field is not negative and whose declared
  size differs from the size the caller expects, \<open>hsw_get_reply\<close> returns \<open>-EINVAL\<close> and
  takes the expected size, in its 32-bit variable, as the size to read.  When \<open>msg_data\<close>
  is not null, exactly that many bytes of the host box are copied to the reply buffer;
  when \<open>msg_data\<close> is null, nothing is copied.
\<close>

theorem hsw_get_reply_size_mismatch:
  assumes "0 \<le> sint (reply_error (read_reply k sdev))"
    and "unat (reply_hdr_size (read_reply k sdev)) \<noteq> reply_size msg"
  shows "fst (hsw_get_reply k sdev msg) = - EINVAL
    \<and> fst (hsw_get_reply_check k sdev msg (read_reply k sdev)) = of_nat (reply_size msg)
    \<and> (msg_data msg \<noteq> None \<longrightarrow>
         reply_data (fst (snd (hsw_get_reply k sdev msg))) =
           copy_to (reply_data msg)
             (hsw_mailbox_read sdev (box_offset (host_box sdev)) (reply_size msg mod 2 ^ 32)))
    \<and> (msg_data msg = None \<longrightarrow> fst (snd (hsw_get_reply k sdev msg)) = msg)"
proof -
  have chk: "hsw_get_reply_check k sdev msg (read_reply k sdev) =
      (of_nat (reply_size msg), - EINVAL,
       dev_err sdev ''error: reply expected 0x%zx got 0x%x bytes'')"
    using assms by (simp add: hsw_get_reply_check_def)
  have u: "unat (of_nat (reply_size msg) :: u32) = reply_size msg mod 2 ^ 32"
    by (simp add: unat_of_nat)
  have z: "reply_size msg mod 2 ^ 32 = 0" if "\<not> 0 < (of_nat (reply_size msg) :: u32)"
  proof -
    from that have "(of_nat (reply_size msg) :: u32) = 0"
      using word_greater_zero_iff [of "of_nat (reply_size msg) :: u32"] by blast
    then have "unat (of_nat (reply_size msg) :: u32) = 0" by simp
    then show ?thesis unfolding u .
  qed
  show ?thesis
    unfolding hsw_get_reply_parts chk Let_def fst_conv snd_conv u
    using z by (auto simp add: copy_to_Nil hsw_mailbox_read_0)
qed

theorem hsw_get_reply_size_mismatch_witness:
  "fst (hsw_get_reply hsw_example_consts (hsw_write hsw_example_dev HSW_DSP_BAR 0 4)
          \<lparr>msg_data = Some [], msg_size = 0, reply_data = replicate 8 0xFF, reply_size = 8\<rparr>)
     = - EINVAL
   \<and> reply_data (fst (snd (hsw_get_reply hsw_example_consts
          (hsw_write hsw_example_dev HSW_DSP_BAR 0 4)
          \<lparr>msg_data = Some [], msg_size = 0, reply_data = replicate 8 0xFF, reply_size = 8\<rparr>)))
     = [4, 0, 0, 0, 0, 0, 0, 0]
   \<and> fst (snd (hsw_get_reply hsw_example_consts (hsw_write hsw_example_dev HSW_DSP_BAR 0 4)
          \<lparr>msg_data = None, msg_size = 0, reply_data = replicate 8 0xFF, reply_size = 8\<rparr>))
     = \<lparr>msg_data = None, msg_size = 0, reply_data = replicate 8 0xFF, reply_size = 8\<rparr>"
proof -
  let ?d = "hsw_write hsw_example_dev HSW_DSP_BAR 0 4"
  let ?m = "\<lparr>msg_data = Some [], msg_size = 0, reply_data = replicate 8 (0xFF :: u8),
     reply_size = 8\<rparr>"
  let ?n = "\<lparr>msg_data = None, msg_size = 0, reply_data = replicate 8 (0xFF :: u8),
     reply_size = 8\<rparr>"
  have h1: "0 \<le> sint (reply_error (read_reply hsw_example_consts ?d))"
    and h2: "unat (reply_hdr_size (read_reply hsw_example_consts ?d)) \<noteq> reply_size ?m"
    and h3: "unat (reply_hdr_size (read_reply hsw_example_consts ?d)) \<noteq> reply_size ?n"
    by (simp_all add: example_reply)
  from hsw_get_reply_size_mismatch [OF h1 h2] hsw_get_reply_size_mismatch [OF h1 h3]
  show ?thesis
    by (simp add: example_box_bytes copy_to_def)
qed

text \<open>
  The claim as it stands has the expected number of bytes read back for every such reply.
  With \<open>msg_data\<close> null, a declared size of 4 and an expected size of 8, the result is
  \<open>-EINVAL\<close> and the reply buffer is as before: it does not hold the 8 bytes of the host
  box.
\<close>

theorem hsw_get_reply_null_msg_data_reads_nothing:
  "0 \<le> sint (reply_error (read_reply hsw_example_consts
           (hsw_write hsw_example_dev HSW_DSP_BAR 0 4)))
   \<and> unat (reply_hdr_size (read_reply hsw_example_consts
           (hsw_write hsw_example_dev HSW_DSP_BAR 0 4))) \<noteq> 8
   \<and> fst (hsw_get_reply hsw_example_consts (hsw_write hsw_example_dev HSW_DSP_BAR 0 4)
          \<lparr>msg_data = None, msg_size = 0, reply_data = replicate 8 0xFF, reply_size = 8\<rparr>)
     = - EINVAL
   \<and> reply_data (fst (snd (hsw_get_reply hsw_example_consts
          (hsw_write hsw_example_dev HSW_DSP_BAR 0 4)
          \<lparr>msg_data = None, msg_size = 0, reply_data = replicate 8 0xFF, reply_size = 8\<rparr>)))
     = replicate 8 0xFF
   \<and> reply_data (fst (snd (hsw_get_reply hsw_example_consts
          (hsw_write hsw_example_dev HSW_DSP_BAR 0 4)
          \<lparr>msg_data = None, msg_size = 0, reply_data = replicate 8 0xFF, reply_size = 8\<rparr>)))
     \<noteq> hsw_mailbox_read (hsw_write hsw_example_dev HSW_DSP_BAR 0 4)
          (box_offset (host_box (hsw_write hsw_example_dev HSW_DSP_BAR 0 4))) 8"
proof -
  have ne: "replicate 8 (0xFF :: u8) \<noteq> [4, 0, 0, 0, 0, 0, 0, 0]"
  proof
    assume "replicate 8 (0xFF :: u8) = [4, 0, 0, 0, 0, 0, 0, 0]"
    then have "replicate 8 (0xFF :: u8) ! 0 = [4, 0, 0, 0, 0, 0, 0, 0] ! 0" by simp
    then show False by simp
  qed
  show ?thesis
    unfolding hsw_get_reply_parts example_box_bytes
    using ne by (simp add: example_reply hsw_get_reply_check_def Let_def)
qed

text \<open>
  Claim C3.  For a reply whose error field is negative, \<open>hsw_get_reply\<close> returns that error
  and takes \<^verbatim>\<open>sizeof(reply)\<close>, the size of the reply header structure, as the size to read;
  no error is logged, and with \<open>msg_data\<close> not null that many bytes of the host box are
  copied to the reply buffer.
\<close>

theorem hsw_get_reply_error:
  assumes "sint (reply_error (read_reply k sdev)) < 0"
  shows "fst (hsw_get_reply k sdev msg) = sint (reply_error (read_reply k sdev))
    \<and> fst (hsw_get_reply_check k sdev msg (read_reply k sdev)) = of_nat (sizeof_sof_ipc_reply k)
    \<and> snd (snd (hsw_get_reply k sdev msg)) = sdev
    \<and> (msg_data msg \<noteq> None \<longrightarrow>
         reply_data (fst (snd (hsw_get_reply k sdev msg))) =
           copy_to (reply_data msg)
             (hsw_mailbox_read sdev (box_offset (host_box sdev))
                (sizeof_sof_ipc_reply k mod 2 ^ 32)))"
proof -
  have chk: "hsw_get_reply_check k sdev msg (read_reply k sdev) =
      (of_nat (sizeof_sof_ipc_reply k), sint (reply_error (read_reply k sdev)), sdev)"
    using assms by (simp add: hsw_get_reply_check_def)
  have u: "unat (of_nat (sizeof_sof_ipc_reply k) :: u32) = sizeof_sof_ipc_reply k mod 2 ^ 32"
    by (simp add: unat_of_nat)
  have z: "sizeof_sof_ipc_reply k mod 2 ^ 32 = 0"
    if "\<not> 0 < (of_nat (sizeof_sof_ipc_reply k) :: u32)"
  proof -
    from that have "(of_nat (sizeof_sof_ipc_reply k) :: u32) = 0"
      using word_greater_zero_iff [of "of_nat (sizeof_sof_ipc_reply k) :: u32"] by blast
    then have "unat (of_nat (sizeof_sof_ipc_reply k) :: u32) = 0" by simp
    then show ?thesis unfolding u .
  qed
  show ?thesis
    unfolding hsw_get_reply_parts chk Let_def fst_conv snd_conv u
    using z by (auto simp add: copy_to_Nil hsw_mailbox_read_0)
qed

theorem hsw_get_reply_error_witness:
  "sint (reply_error (read_reply hsw_example_consts
      (hsw_write hsw_example_dev HSW_DSP_BAR 8 0xFFFFFFFB))) = - 5
   \<and> fst (hsw_get_reply hsw_example_consts (hsw_write hsw_example_dev HSW_DSP_BAR 8 0xFFFFFFFB)
          \<lparr>msg_data = Some [], msg_size = 0, reply_data = replicate 16 0xFF, reply_size = 16\<rparr>)
     = - 5
   \<and> fst (hsw_get_reply_check hsw_example_consts (hsw_write hsw_example_dev HSW_DSP_BAR 8 0xFFFFFFFB)
          \<lparr>msg_data = Some [], msg_size = 0, reply_data = replicate 16 0xFF, reply_size = 16\<rparr>
          (read_reply hsw_example_consts (hsw_write hsw_example_dev HSW_DSP_BAR 8 0xFFFFFFFB)))
     = 12
   \<and> reply_data (fst (snd (hsw_get_reply hsw_example_consts
          (hsw_write hsw_example_dev HSW_DSP_BAR 8 0xFFFFFFFB)
          \<lparr>msg_data = Some [], msg_size = 0, reply_data = replicate 16 0xFF, reply_size = 16\<rparr>)))
     = [0, 0, 0, 0, 0, 0, 0, 0, 0xFB, 0xFF, 0xFF, 0xFF, 0xFF, 0xFF, 0xFF, 0xFF]"
proof -
  let ?d = "hsw_write hsw_example_dev HSW_DSP_BAR 8 0xFFFFFFFB"
  have m: "bar ?d (mailbox_bar ?d) = writel 0xFFFFFFFB 8 (\<lambda>a. 0)" "box_offset (host_box ?d) = 0"
    by (simp_all add: hsw_write_fields hsw_example_dev_def)
  have c: "sizeof_sof_ipc_reply hsw_example_consts = 12"
    "offsetof_reply_hdr_size hsw_example_consts = 0"
    "offsetof_reply_error hsw_example_consts = 8"
    by (simp_all add: hsw_example_consts_def)
  have e: "reply_error (read_reply hsw_example_consts ?d) = 0xFFFFFFFB"
    by (simp add: read_reply_def hsw_mailbox_read_def m c get_le32_memcpy_fromio
        readl_writel_same)
  have h: "sint (reply_error (read_reply hsw_example_consts ?d)) < 0"
    unfolding e by simp
  have bytes: "hsw_mailbox_read ?d 0 12 = [0, 0, 0, 0, 0, 0, 0, 0, 0xFB, 0xFF, 0xFF, 0xFF]"
    by (simp add: hsw_mailbox_read_def memcpy_fromio_def m writel_def byte_of_def upt_conv_Cons)
  have rest: "replicate 4 (0xFF :: u8) = [0xFF, 0xFF, 0xFF, 0xFF]"
    by (simp add: numeral_eq_Suc)
  from hsw_get_reply_error [OF h, where msg = "\<lparr>msg_data = Some [], msg_size = 0,
      reply_data = replicate 16 0xFF, reply_size = 16\<rparr>"]
  show ?thesis
    unfolding e by (simp add: c m bytes copy_to_def rest)
qed

text \<open>
  Claim C10.  With \<open>msg_data\<close> null, \<open>hsw_get_reply\<close> leaves the message, and so the reply
  buffer, as it was, whatever the size to read is.  The same holds when the size is 0.
  Only with \<open>msg_data\<close> not null and the size positive are bytes copied, and they are the
  bytes of the mailbox region from the offset of the host box on, the offset from which
  the reply header was read.
\<close>

theorem hsw_get_reply_copy_guard:
  "(let sz = fst (hsw_get_reply_check k sdev msg (read_reply k sdev));
        msg' = fst (snd (hsw_get_reply k sdev msg));
        base = unat (box_offset (host_box sdev));
        mem = bar sdev (mailbox_bar sdev)
    in (msg_data msg = None \<longrightarrow> msg' = msg)
     \<and> (sz = 0 \<longrightarrow> msg' = msg)
     \<and> (msg_data msg \<noteq> None \<and> 0 < sz \<longrightarrow>
          msg' = msg\<lparr>reply_data :=
                  copy_to (reply_data msg) (memcpy_fromio mem base (unat sz))\<rparr>
          \<and> (\<forall>i < unat sz. reply_data msg' ! i = mem (base + i)))
     \<and> read_reply k sdev =
          \<lparr>reply_hdr_size = get_le32 (memcpy_fromio mem base (sizeof_sof_ipc_reply k))
                              (offsetof_reply_hdr_size k),
           reply_error = get_le32 (memcpy_fromio mem base (sizeof_sof_ipc_reply k))
                           (offsetof_reply_error k)\<rparr>)"
proof -
  have nth: "copy_to buf (memcpy_fromio mem base n) ! i = mem (base + i)"
    if "i < n" for buf mem base n i
    using that by (simp add: copy_to_def memcpy_fromio_def nth_append)
  show ?thesis
    unfolding Let_def hsw_get_reply_parts
    by (simp add: nth hsw_mailbox_read_def read_reply_def Let_def)
qed

theorem hsw_get_reply_copy_guard_witness:
  "fst (snd (hsw_get_reply hsw_example_consts (hsw_write hsw_example_dev HSW_DSP_BAR 0 4)
          \<lparr>msg_data = None, msg_size = 0, reply_data = replicate 4 0xFF, reply_size = 4\<rparr>))
     = \<lparr>msg_data = None, msg_size = 0, reply_data = replicate 4 0xFF, reply_size = 4\<rparr>
   \<and> reply_data (fst (snd (hsw_get_reply hsw_example_consts
          (hsw_write hsw_example_dev HSW_DSP_BAR 0 4)
          \<lparr>msg_data = Some [], msg_size = 0, reply_data = replicate 4 0xFF, reply_size = 4\<rparr>)))
     = [4, 0, 0, 0]
   \<and> fst (snd (hsw_get_reply hsw_example_consts hsw_example_dev
          \<lparr>msg_data = Some [], msg_size = 0, reply_data = replicate 4 0xFF, reply_size = 0\<rparr>))
     = \<lparr>msg_data = Some [], msg_size = 0, reply_data = replicate 4 0xFF, reply_size = 0\<rparr>"
proof -
  let ?k = hsw_example_consts
  let ?d = "hsw_write hsw_example_dev HSW_DSP_BAR 0 4"
  let ?m0 = "\<lparr>msg_data = None, msg_size = 0, reply_data = replicate 4 (0xFF :: u8),
     reply_size = 4\<rparr>"
  let ?m1 = "\<lparr>msg_data = Some [], msg_size = 0, reply_data = replicate 4 (0xFF :: u8),
     reply_size = 4\<rparr>"
  let ?m2 = "\<lparr>msg_data = Some [], msg_size = 0, reply_data = replicate 4 (0xFF :: u8),
     reply_size = 0\<rparr>"
  have sz: "fst (hsw_get_reply_check ?k ?d ?m1 (read_reply ?k ?d)) = 4"
    by (simp add: example_reply hsw_get_reply_check_def)
  have m: "bar ?d (mailbox_bar ?d) = writel 4 0 (\<lambda>a. 0)" "box_offset (host_box ?d) = 0"
    by (simp_all add: hsw_write_fields hsw_example_dev_def)
  have bytes: "memcpy_fromio (writel 4 0 (\<lambda>a. 0)) 0 4 = [4, 0, 0, 0]"
    by (simp add: memcpy_fromio_def writel_def byte_of_def upt_conv_Cons)
  have c: "sizeof_sof_ipc_reply ?k = 12" "offsetof_reply_hdr_size ?k = 0"
    "offsetof_reply_error ?k = 8"
    by (simp_all add: hsw_example_consts_def)
  have r0: "read_reply ?k hsw_example_dev = \<lparr>reply_hdr_size = 0, reply_error = 0\<rparr>"
    by (simp add: read_reply_def hsw_mailbox_read_def c get_le32_memcpy_fromio
        hsw_example_dev_def readl_def)
  have sz0: "fst (hsw_get_reply_check ?k hsw_example_dev ?m2 (read_reply ?k hsw_example_dev)) = 0"
    by (simp add: r0 hsw_get_reply_check_def)
  note t0 = hsw_get_reply_copy_guard [where msg = ?m0 and k = ?k and sdev = ?d, unfolded Let_def]
  note t1 = hsw_get_reply_copy_guard [where msg = ?m1 and k = ?k and sdev = ?d, unfolded Let_def sz m]
  note t2 = hsw_get_reply_copy_guard [where msg = ?m2 and k = ?k and sdev = hsw_example_dev,
      unfolded Let_def sz0]
  from t0 have a: "fst (snd (hsw_get_reply ?k ?d ?m0)) = ?m0" by simp
  from t1 have b: "fst (snd (hsw_get_reply ?k ?d ?m1)) =
      ?m1\<lparr>reply_data := copy_to (reply_data ?m1) (memcpy_fromio (writel 4 0 (\<lambda>a. 0)) 0 4)\<rparr>"
    by simp
  from t2 have z: "fst (snd (hsw_get_reply ?k hsw_example_dev ?m2)) = ?m2" by simp
  show ?thesis unfolding a b z bytes by (simp add: copy_to_def)
qed

end
